theory Spec2Isabelle
  imports Complex_Main "HOL-Library.List_Lexorder" "HOL-Library.Char_ord"
begin

section \<open>The external libraries, as the two tools query them\<close>

text \<open>
  \<^verbatim>\<open>font-indexer.py\<close> and \<^verbatim>\<open>font-renderer.py\<close> parse no font and rasterize no glyph
  themselves: they ask fontTools (\<^verbatim>\<open>TTFont\<close>) and Pillow (\<^verbatim>\<open>ImageFont\<close>, \<^verbatim>\<open>ImageDraw\<close>,
  \<^verbatim>\<open>Image\<close>). The answers of these libraries are parameters of the model. Every call
  that can raise returns a sum, \<open>Inl\<close> carrying the exception: each function of the
  source wraps its body in \<^verbatim>\<open>try ... except Exception\<close>, and two of them catch
  \<^verbatim>\<open>TypeError\<close> apart, so the exception keeps that one distinction and its message
  (\<^verbatim>\<open>str(e)\<close>, which the source formats into its reason strings).
\<close>

datatype exn = TypeError string | Exception string

fun str_exn :: "exn \<Rightarrow> string" where
  "str_exn (TypeError m) = m"
| "str_exn (Exception m) = m"

text \<open>
  A \<^verbatim>\<open>TTFont\<close> object, reduced to the four queries of the source:
  \<^verbatim>\<open>font.getBestCmap()\<close> (a dict from code point to glyph name, or \<^verbatim>\<open>None\<close>),
  \<^verbatim>\<open>font['hmtx']\<close> (indexed by glyph name, giving advance width and left side bearing),
  \<^verbatim>\<open>font['head'].unitsPerEm\<close> and \<^verbatim>\<open>font['name'].names\<close> (records with a
  \<^verbatim>\<open>nameID\<close> and a \<^verbatim>\<open>toUnicode()\<close> that may raise). The dict is an association list
  read with \<open>map_of\<close>; a Python dict is falsy exactly when it is empty.
\<close>

type_synonym cmap = "(nat \<times> string) list"

record ttfont =
  getBestCmap :: "exn + cmap option"
  hmtx :: "exn + (string \<Rightarrow> exn + (int \<times> int))"
  unitsPerEm :: "exn + int"
  names :: "exn + (nat \<times> (exn + string)) list"

text \<open>
  A Pillow font face (\<^verbatim>\<open>ImageFont.truetype(font_path, size)\<close>) with the measurements an
  \<^verbatim>\<open>ImageDraw\<close> takes over it at origin \<open>(0, 0)\<close>: \<^verbatim>\<open>font.getmetrics()\<close>,
  \<^verbatim>\<open>draw.textbbox((0, 0), text, font=font)\<close> (left, top, right, bottom) and the older
  \<^verbatim>\<open>draw.textsize(text, font=font)\<close>.
\<close>

record imagefont =
  getmetrics :: "exn + (int \<times> int)"
  textbbox :: "string \<Rightarrow> exn + (int \<times> int \<times> int \<times> int)"
  textsize :: "string \<Rightarrow> exn + (int \<times> int)"

text \<open>
  An image as the source builds it: \<^verbatim>\<open>Image.new(mode, size, color)\<close>, then one
  \<^verbatim>\<open>draw.text(xy, text, font=font, fill=fill)\<close>. A saved file is the path, the format and
  the image.
\<close>

record image =
  im_mode :: string
  im_size :: "int \<times> int"
  im_color :: "int \<times> int \<times> int \<times> int"
  im_drawn :: "((int \<times> int) \<times> string \<times> string) list"

record saved_file =
  file_path :: string
  file_format :: string
  file_image :: image

text \<open>
  The world of one run. \<open>Image_new\<close>, \<open>draw_text\<close> and \<open>save\<close> say whether the Pillow
  call raises (\<open>None\<close>: it does not); \<open>basename\<close>, \<open>relpath\<close> and \<open>path_join\<close> are
  \<^verbatim>\<open>os.path.basename\<close>, \<^verbatim>\<open>os.path.relpath\<close> and \<^verbatim>\<open>os.path.join\<close>; \<open>walk\<close> is
  \<^verbatim>\<open>os.walk\<close> (root, directories, files); \<open>readme\<close> is the README rendered by
  \<^verbatim>\<open>markdown.markdown\<close>, \<open>None\<close> when \<^verbatim>\<open>README.md\<close> does not exist. Font files do
  not change during a run, so \<open>TTFont\<close> and \<open>truetype\<close> are functions of the path.
  Console output (\<^verbatim>\<open>print\<close>, \<^verbatim>\<open>tqdm\<close>) is not modelled.
\<close>

record lib =
  TTFont :: "string \<Rightarrow> exn + ttfont"
  truetype :: "string \<Rightarrow> int \<Rightarrow> exn + imagefont"
  Image_new :: "string \<Rightarrow> int \<times> int \<Rightarrow> exn option"
  draw_text :: "image \<Rightarrow> imagefont \<Rightarrow> string \<Rightarrow> exn option"
  save :: "image \<Rightarrow> string \<Rightarrow> string \<Rightarrow> exn option"
  basename :: "string \<Rightarrow> string"
  relpath :: "string \<Rightarrow> string"
  path_join :: "string \<Rightarrow> string \<Rightarrow> string"
  walk :: "string \<Rightarrow> (string \<times> string list \<times> string list) list"
  readme :: "string option"

section \<open>font-indexer.py\<close>

subsection \<open>get_font_info\<close>

record font_info =
  family :: string
  style :: string
  full_name :: string
  version :: string
  copyright :: string

text \<open>The loop \<^verbatim>\<open>names[record.nameID] = record.toUnicode()\<close>: a later record overwrites.\<close>

fun collect_names ::
  "(nat \<times> (exn + string)) list \<Rightarrow> (nat \<rightharpoonup> string) \<Rightarrow> exn + (nat \<rightharpoonup> string)" where
  "collect_names [] m = Inr m"
| "collect_names ((nameID, u) # rs) m =
     (case u of Inl e \<Rightarrow> Inl e | Inr s \<Rightarrow> collect_names rs (m(nameID \<mapsto> s)))"

definition dict_get :: "(nat \<rightharpoonup> string) \<Rightarrow> nat \<Rightarrow> string \<Rightarrow> string" where
  "dict_get m k d = (case m k of None \<Rightarrow> d | Some v \<Rightarrow> v)"

definition get_font_info :: "lib \<Rightarrow> string \<Rightarrow> font_info option" where
  "get_font_info L font_path =
     (case TTFont L font_path of
        Inl e \<Rightarrow> None
      | Inr font \<Rightarrow>
          (case names font of
             Inl e \<Rightarrow> None
           | Inr records \<Rightarrow>
               (case collect_names records Map.empty of
                  Inl e \<Rightarrow> None
                | Inr m \<Rightarrow>
                    Some \<lparr>family = dict_get m 1 ''N/A'',
                          style = dict_get m 2 ''N/A'',
                          full_name = dict_get m 4 ''N/A'',
                          version = dict_get m 5 ''N/A'',
                          copyright = dict_get m 0 ''N/A''\<rparr>)))"

subsection \<open>has_required_chars\<close>

definition required_chars :: string where
  "required_chars = ''ABCDEFGHIJKLMNOPQRSTUVWXYZabcdefghijklmnopqrstuvwxyz0123456789''"

text \<open>
  The loop over \<^verbatim>\<open>required_chars\<close>: the first character that is no key returns False.
  Before it, \<^verbatim>\<open>if not cmap\<close> rejects \<^verbatim>\<open>None\<close> and the empty dict.
\<close>

fun chars_in_cmap :: "cmap \<Rightarrow> string \<Rightarrow> bool" where
  "chars_in_cmap cm [] = True"
| "chars_in_cmap cm (c # cs) =
     (if map_of cm (of_char c) = None then False else chars_in_cmap cm cs)"

definition has_required_chars :: "lib \<Rightarrow> string \<Rightarrow> bool" where
  "has_required_chars L font_path =
     (case TTFont L font_path of
        Inl e \<Rightarrow> False
      | Inr font \<Rightarrow>
          (case getBestCmap font of
             Inl e \<Rightarrow> False
           | Inr None \<Rightarrow> False
           | Inr (Some cm) \<Rightarrow>
               if cm = [] then False else chars_in_cmap cm required_chars))"

subsection \<open>check_font_metrics\<close>

text \<open>
  The loop over \<^verbatim>\<open>required_chars\<close>. It raises when \<^verbatim>\<open>hmtx[glyph_name]\<close> does
  (\<open>Inl\<close>), returns from the function at a zero or an excessive advance width
  (\<open>Inr (Inl result)\<close>), or runs to its end with the widths collected
  (\<open>Inr (Inr alphanumeric_widths)\<close>).
\<close>

fun widths_loop ::
  "cmap \<Rightarrow> (string \<Rightarrow> exn + (int \<times> int)) \<Rightarrow> int \<Rightarrow> string \<Rightarrow> int list
     \<Rightarrow> exn + ((bool \<times> string) + int list)" where
  "widths_loop cm hm units_per_em [] alphanumeric_widths = Inr (Inr alphanumeric_widths)"
| "widths_loop cm hm units_per_em (c # cs) alphanumeric_widths =
     (case map_of cm (of_char c) of
        None \<Rightarrow> widths_loop cm hm units_per_em cs alphanumeric_widths
      | Some glyph_name \<Rightarrow>
          (case hm glyph_name of
             Inl e \<Rightarrow> Inl e
           | Inr (advance_width, lsb) \<Rightarrow>
               if advance_width = 0
               then Inr (Inl (False, ''Character '' @ [CHR 0x27, c, CHR 0x27] @ '' has zero width''))
               else if advance_width > units_per_em * 10
               then Inr (Inl (False,
                      ''Character '' @ [CHR 0x27, c, CHR 0x27] @ '' has excessively large width''))
               else widths_loop cm hm units_per_em cs (alphanumeric_widths @ [advance_width])))"

text \<open>
  The part after the loop. Python computes \<^verbatim>\<open>sum(...) / len(...)\<close> and the product with 3
  in binary floating point; the model computes them exactly, in the reals.
\<close>

definition after_widths ::
  "cmap \<Rightarrow> (string \<Rightarrow> exn + (int \<times> int)) \<Rightarrow> int list \<Rightarrow> exn + (bool \<times> string)" where
  "after_widths cm hm alphanumeric_widths =
     (if alphanumeric_widths = [] then Inr (False, ''No alphanumeric characters found'')
      else case map_of cm (of_char CHR '' '') of
             None \<Rightarrow> Inr (False, ''No space character'')
           | Some space_glyph_name \<Rightarrow>
               let average_width =
                     real_of_int (sum_list alphanumeric_widths)
                       / real (length alphanumeric_widths)
               in (case hm space_glyph_name of
                     Inl e \<Rightarrow> Inl e
                   | Inr (space_advance_width, lsb) \<Rightarrow>
                       if real_of_int space_advance_width > average_width * 3
                       then Inr (False, ''Space character is excessively wide'')
                       else Inr (True, [])))"

text \<open>The body of the \<^verbatim>\<open>try\<close>.\<close>

definition check_font_metrics_try :: "lib \<Rightarrow> string \<Rightarrow> exn + (bool \<times> string)" where
  "check_font_metrics_try L font_path =
     (case TTFont L font_path of
        Inl e \<Rightarrow> Inl e
      | Inr font \<Rightarrow>
          (case getBestCmap font of
             Inl e \<Rightarrow> Inl e
           | Inr None \<Rightarrow> Inr (False, ''No cmap table found'')
           | Inr (Some cm) \<Rightarrow>
               if cm = [] then Inr (False, ''No cmap table found'')
               else (case hmtx font of
                       Inl e \<Rightarrow> Inl e
                     | Inr hm \<Rightarrow>
                         (case unitsPerEm font of
                            Inl e \<Rightarrow> Inl e
                          | Inr units_per_em \<Rightarrow>
                              (case widths_loop cm hm units_per_em required_chars [] of
                                 Inl e \<Rightarrow> Inl e
                               | Inr (Inl result) \<Rightarrow> Inr result
                               | Inr (Inr alphanumeric_widths) \<Rightarrow>
                                   after_widths cm hm alphanumeric_widths)))))"

definition check_font_metrics :: "lib \<Rightarrow> string \<Rightarrow> bool \<times> string" where
  "check_font_metrics L font_path =
     (case check_font_metrics_try L font_path of
        Inl e \<Rightarrow> (False, ''Could not check metrics: '' @ str_exn e)
      | Inr result \<Rightarrow> result)"

subsection \<open>slow_check_font\<close>

text \<open>
  The inner \<^verbatim>\<open>try\<close> measures the three probe strings with \<^verbatim>\<open>textbbox(...)[2]\<close>, the
  right edge of the box drawn at \<open>(0, 0)\<close>; a \<^verbatim>\<open>TypeError\<close> from any of the three calls
  sends all three measurements to \<^verbatim>\<open>textsize(...)[0]\<close>.
\<close>

definition bbox_right :: "imagefont \<Rightarrow> string \<Rightarrow> exn + int" where
  "bbox_right font s = (case textbbox font s of Inl e \<Rightarrow> Inl e | Inr (l, t, r, b) \<Rightarrow> Inr r)"

definition textsize_width :: "imagefont \<Rightarrow> string \<Rightarrow> exn + int" where
  "textsize_width font s = (case textsize font s of Inl e \<Rightarrow> Inl e | Inr (w, h) \<Rightarrow> Inr w)"

definition three_widths ::
  "(string \<Rightarrow> exn + int) \<Rightarrow> exn + (int \<times> int \<times> int)" where
  "three_widths width_of =
     (case width_of ''A B C D E'' of
        Inl e \<Rightarrow> Inl e
      | Inr width_with_spaces \<Rightarrow>
          (case width_of ''ABCDE'' of
             Inl e \<Rightarrow> Inl e
           | Inr width_no_spaces \<Rightarrow>
               (case width_of '' '' of
                  Inl e \<Rightarrow> Inl e
                | Inr space_width \<Rightarrow> Inr (width_with_spaces, width_no_spaces, space_width))))"

definition probe_widths :: "imagefont \<Rightarrow> exn + (int \<times> int \<times> int)" where
  "probe_widths font =
     (case three_widths (bbox_right font) of
        Inl (TypeError m) \<Rightarrow> three_widths (textsize_width font)
      | Inl (Exception m) \<Rightarrow> Inl (Exception m)
      | Inr ws \<Rightarrow> Inr ws)"

definition slow_check_font_try :: "lib \<Rightarrow> string \<Rightarrow> int \<Rightarrow> exn + (bool \<times> string)" where
  "slow_check_font_try L font_path sz =
     (case truetype L font_path sz of
        Inl e \<Rightarrow> Inl e
      | Inr font \<Rightarrow>
          (case probe_widths font of
             Inl e \<Rightarrow> Inl e
           | Inr (width_with_spaces, width_no_spaces, space_width) \<Rightarrow>
               if width_with_spaces - width_no_spaces > space_width * 4
               then Inr (False, ''Potential kerning issue'')
               else Inr (True, [])))"

definition slow_check_font :: "lib \<Rightarrow> string \<Rightarrow> int \<Rightarrow> bool \<times> string" where
  "slow_check_font L font_path sz =
     (case slow_check_font_try L font_path sz of
        Inl e \<Rightarrow> (False, ''Could not perform slow check: '' @ str_exn e)
      | Inr result \<Rightarrow> result)"

subsection \<open>render_text\<close>

text \<open>
  The tail both rasterizers share: \<^verbatim>\<open>Image.new('RGBA', size, (255, 255, 255, 0))\<close>,
  \<^verbatim>\<open>draw.text((10, 10), text, font=font, fill='black')\<close>, \<^verbatim>\<open>img.save(image_path, 'PNG')\<close>.
\<close>

definition draw_and_save ::
  "lib \<Rightarrow> imagefont \<Rightarrow> string \<Rightarrow> string \<Rightarrow> int \<times> int \<Rightarrow> exn + saved_file" where
  "draw_and_save L font txt image_path dims =
     (case Image_new L ''RGBA'' dims of
        Some e \<Rightarrow> Inl e
      | None \<Rightarrow>
          let img0 = \<lparr>im_mode = ''RGBA'', im_size = dims, im_color = (255, 255, 255, 0),
                      im_drawn = []\<rparr>
          in (case draw_text L img0 font txt of
                Some e \<Rightarrow> Inl e
              | None \<Rightarrow>
                  let img = img0\<lparr>im_drawn := [((10, 10), txt, ''black'')]\<rparr>
                  in (case save L img image_path ''PNG'' of
                        Some e \<Rightarrow> Inl e
                      | None \<Rightarrow>
                          Inr \<lparr>file_path = image_path, file_format = ''PNG'',
                               file_image = img\<rparr>)))"

text \<open>The inner \<^verbatim>\<open>try\<close> of the indexer's rasterizer: only the width is measured.\<close>

definition text_width_of :: "imagefont \<Rightarrow> string \<Rightarrow> exn + int" where
  "text_width_of font txt =
     (case textbbox font txt of
        Inr (l, t, r, b) \<Rightarrow> Inr (r - l)
      | Inl (TypeError m) \<Rightarrow> textsize_width font txt
      | Inl (Exception m) \<Rightarrow> Inl (Exception m))"

definition render_text_try :: "lib \<Rightarrow> string \<Rightarrow> string \<Rightarrow> string \<Rightarrow> int \<Rightarrow> exn + saved_file" where
  "render_text_try L txt font_path image_path sz =
     (case truetype L font_path sz of
        Inl e \<Rightarrow> Inl e
      | Inr font \<Rightarrow>
          (case getmetrics font of
             Inl e \<Rightarrow> Inl e
           | Inr (ascent, descent) \<Rightarrow>
               (case text_width_of font txt of
                  Inl e \<Rightarrow> Inl e
                | Inr text_width \<Rightarrow>
                    let padding = 10;
                        img_width = text_width + 2 * padding;
                        img_height = ascent + \<bar>descent\<bar> + 2 * padding
                    in draw_and_save L font txt image_path (img_width, img_height))))"

text \<open>The result is the returned flag and the file written, if any.\<close>

definition render_text ::
  "lib \<Rightarrow> string \<Rightarrow> string \<Rightarrow> string \<Rightarrow> int \<Rightarrow> bool \<times> saved_file option" where
  "render_text L txt font_path image_path sz =
     (case render_text_try L txt font_path image_path sz of
        Inl e \<Rightarrow> (False, None)
      | Inr f \<Rightarrow> (True, Some f))"

subsection \<open>find_fonts\<close>

text \<open>
  \<^verbatim>\<open>file.lower().endswith('.ttf')\<close>. A \<open>char\<close> is a byte: \<open>lower\<close> maps \<open>A\<close>..\<open>Z\<close> to
  \<open>a\<close>..\<open>z\<close> and leaves the other bytes alone.
\<close>

definition lower_char :: "char \<Rightarrow> char" where
  "lower_char c =
     (if CHR ''A'' \<le> c \<and> c \<le> CHR ''Z'' then char_of (of_char c + (32::nat)) else c)"

definition lower :: "string \<Rightarrow> string" where
  "lower s = map lower_char s"

definition endswith :: "string \<Rightarrow> string \<Rightarrow> bool" where
  "endswith s suffix =
     (length suffix \<le> length s \<and> drop (length s - length suffix) s = suffix)"

definition find_fonts :: "lib \<Rightarrow> string \<Rightarrow> string list" where
  "find_fonts L directory =
     concat (map (\<lambda>(root, dirs, files).
                    map (path_join L root) (filter (\<lambda>file. endswith (lower file) ''.ttf'') files))
                 (walk L directory))"

subsection \<open>main\<close>

record args =
  text_arg :: string
  output_dir :: string
  html_file :: string
  font_size :: int
  slow_check :: bool
  font_dir :: string
  number :: "int option"

text \<open>
  The slice \<^verbatim>\<open>fonts[:n]\<close> of Python: the first \<open>n\<close> elements when \<open>n \<ge> 0\<close>, all but
  the last \<open>-n\<close> when \<open>n < 0\<close>.
\<close>

definition slice_to :: "'a list \<Rightarrow> int \<Rightarrow> 'a list" where
  "slice_to xs n = (if 0 \<le> n then take (nat n) xs else take (length xs - nat (- n)) xs)"

text \<open>
  The list the loop runs over: the fonts found, cut by \<^verbatim>\<open>-n\<close> when it is given, then
  \<^verbatim>\<open>sorted\<close> (strings compare lexicographically by character code).
\<close>

definition font_iterator :: "lib \<Rightarrow> args \<Rightarrow> string list" where
  "font_iterator L a =
     (let fonts = find_fonts L (font_dir a);
          fonts = (case number a of None \<Rightarrow> fonts | Some n \<Rightarrow> slice_to fonts n)
      in sort fonts)"

text \<open>\<^verbatim>\<open>str\<close> of a Python int, for the two counters formatted into the page.\<close>

fun str_nat :: "nat \<Rightarrow> string" where
  "str_nat n =
     (if n < 10 then [''0123456789'' ! n]
      else str_nat (n div 10) @ [''0123456789'' ! (n mod 10)])"

definition str_int :: "int \<Rightarrow> string" where
  "str_int i = (if i < 0 then CHR ''-'' # str_nat (nat (- i)) else str_nat (nat i))"

text \<open>
  The state of the loop: the two counters and \<^verbatim>\<open>table_rows\<close>, and the image files
  written so far.
\<close>

record state =
  total_processed_fonts :: int
  fonts_with_issues :: int
  table_rows :: "string list"
  renders :: "saved_file list"

definition initial_state :: state where
  "initial_state =
     \<lparr>total_processed_fonts = 0, fonts_with_issues = 0, table_rows = [], renders = []\<rparr>"

text \<open>
  Lines 214 to 218: the metric checker, then the kerning checker when \<^verbatim>\<open>--slow-check\<close>
  is set and the metric checker passed; its reason replaces the other when it fails.
\<close>

definition quality_check :: "lib \<Rightarrow> args \<Rightarrow> string \<Rightarrow> bool \<times> string" where
  "quality_check L a font_path =
     (let (metrics_ok, quality_reason) = check_font_metrics L font_path
      in if slow_check a \<and> metrics_ok
         then (let (metrics_ok, reason) = slow_check_font L font_path (font_size a)
               in if \<not> metrics_ok then (metrics_ok, reason) else (metrics_ok, quality_reason))
         else (metrics_ok, quality_reason))"

text \<open>The eight strings appended to \<^verbatim>\<open>table_rows\<close> for one font.\<close>

definition row_of ::
  "font_info \<Rightarrow> string \<Rightarrow> string \<Rightarrow> string \<Rightarrow> string \<Rightarrow> string \<Rightarrow> string list" where
  \<open>row_of info base title_attr quality_icon image_path relative_font_path =
     [''<tr>'',
      ''<td class="font-name-col">'' @ full_name info @ ''</td>'',
      ''<td class="filename-col">'' @ base @ ''</td>'',
      ''<td>'' @ style info @ ''</td>'',
      ''<td '' @ title_attr @ ''>'' @ quality_icon @ ''</td>'',
      ''<td class="render-col"><img src="'' @ image_path @ ''" alt="Render of ''
         @ full_name info @ ''"></td>'',
      ''<td><a href="'' @ relative_font_path @ ''"><i class=\'bx bx-download\'></i></a></td>'',
      ''</tr>'']\<close>

text \<open>One iteration of the loop over \<^verbatim>\<open>font_iterator\<close>; \<^verbatim>\<open>continue\<close> returns the state as it is.\<close>

definition process_font :: "lib \<Rightarrow> args \<Rightarrow> state \<Rightarrow> string \<Rightarrow> state" where
  \<open>process_font L a st font_path =
     (if \<not> has_required_chars L font_path then st
      else case get_font_info L font_path of
             None \<Rightarrow> st
           | Some info \<Rightarrow>
               let (metrics_ok, quality_reason) = quality_check L a font_path;
                   quality_icon = (if metrics_ok then ''&#9989;'' else ''&#10060;'');
                   title_attr = (if \<not> metrics_ok then ''title="'' @ quality_reason @ ''"'' else []);
                   relative_font_path = relpath L font_path;
                   image_name = basename L font_path @ ''.png'';
                   image_path = path_join L (output_dir a) image_name
               in case render_text L (text_arg a) font_path image_path (font_size a) of
                    (True, written) \<Rightarrow>
                      st\<lparr>total_processed_fonts := total_processed_fonts st + 1,
                         fonts_with_issues :=
                           (if \<not> metrics_ok then fonts_with_issues st + 1
                            else fonts_with_issues st),
                         table_rows :=
                           table_rows st @ row_of info (basename L font_path) title_attr
                             quality_icon image_path relative_font_path,
                         renders := renders st @ (case written of None \<Rightarrow> [] | Some f \<Rightarrow> [f])\<rparr>
                  | (False, written) \<Rightarrow> st)\<close>

definition main_loop :: "lib \<Rightarrow> args \<Rightarrow> string list \<Rightarrow> state \<Rightarrow> state" where
  "main_loop L a fonts st = foldl (process_font L a) st fonts"

text \<open>\<^verbatim>\<open>sep.join(xs)\<close> of Python.\<close>

fun join :: "string \<Rightarrow> string list \<Rightarrow> string" where
  "join sep [] = []"
| "join sep [x] = x"
| "join sep (x # y # ys) = x @ sep @ join sep (y # ys)"

text \<open>The writes to the HTML file, in order: one list element for each \<^verbatim>\<open>f.write\<close>.\<close>

definition html_head :: "string list" where
  \<open>html_head =
     [''<html><head><title>Font Index</title>'',
      ''<link href="https://unpkg.com/boxicons@2.1.4/css/boxicons.min.css" rel="stylesheet">'',
      ''<style>'',
      ''body { font-family: sans-serif; margin: 2em; }'',
      ''table { border-collapse: collapse; width: 100%; }'',
      ''th, td { border: 1px solid #ddd; padding: 8px; text-align: left; }'',
      ''th { background-color: #f2f2f2; cursor: pointer; }'',
      ''img { max-width: 100%; height: auto; }'',
      ''#readme { background-color: #f9f9f9; border: 1px solid #eee; padding: 1em; margin-bottom: 2em; }'',
      ''.font-name-col, .filename-col { max-width: 150px; overflow: hidden; text-overflow: ellipsis; white-space: nowrap; }'',
      ''.render-col { width: auto; }'',
      ''</style>'',
      ''</head><body>'',
      ''<h1>Font Index</h1>'']\<close>

definition html_counts :: "int \<Rightarrow> int \<Rightarrow> string list" where
  "html_counts total_n issues_n =
     [''<p>Total fonts processed: '' @ str_int total_n @ ''</p>'',
      ''<p>Fonts with quality issues (&#10060;): '' @ str_int issues_n @ ''</p>'']"

definition html_readme :: "lib \<Rightarrow> string list" where
  \<open>html_readme L =
     (case readme L of
        None \<Rightarrow> []
      | Some html_content \<Rightarrow> [''<div id="readme">'' @ html_content @ ''</div>''])\<close>

definition sort_script :: string where
  \<open>sort_script = join [CHR 0x0A]
     [[],
      ''<script>'',
      ''const sortDirections = {};'',
      [],
      ''function sortTable(n) {'',
      ''    const table = document.getElementById("fontTable");'',
      ''    const tbody = table.tBodies[0];'',
      ''    const rows = Array.from(tbody.rows);'',
      ''    '',
      ''    const dir = sortDirections[n] === \'asc\' ? \'desc\' : \'asc\';'',
      ''    sortDirections[n] = dir;'',
      [],
      ''    rows.sort((a, b) => {'',
      ''        const x = a.cells[n].innerText.toLowerCase();'',
      ''        const y = b.cells[n].innerText.toLowerCase();'',
      ''        '',
      ''        if (x < y) {'',
      ''            return dir === \'asc\' ? -1 : 1;'',
      ''        }'',
      ''        if (x > y) {'',
      ''            return dir === \'asc\' ? 1 : -1;'',
      ''        }'',
      ''        return 0;'',
      ''    });'',
      [],
      ''    rows.forEach(row => tbody.appendChild(row));'',
      ''}'',
      ''</script>'',
      ''        '']\<close>

definition html_table :: "args \<Rightarrow> string list \<Rightarrow> string list" where
  \<open>html_table a rows =
     [''<p>The <b>Quality</b> column indicates whether a font has passed a series of quality checks. A green checkmark (&#9989;) indicates that the font has passed all checks. A red \'x\' (&#10060;) indicates that the font may have issues, such as missing characters or inconsistent kerning, which can cause problems when rendering text.</p>'',
      ''<p>Rendering the text: "'' @ text_arg a @ ''"</p>'',
      ''<table id="fontTable">'',
      ''<thead><tr><th class="font-name-col" onclick="sortTable(0)">Font Name</th><th class="filename-col" onclick="sortTable(1)">Filename</th><th onclick="sortTable(2)">Style</th><th onclick="sortTable(3)">Quality</th><th class="render-col">Render</th><th></th></tr></thead>'',
      ''<tbody>'',
      join [CHR 0x0A] rows,
      ''</tbody>'',
      ''</table>'',
      sort_script,
      ''</body></html>'']\<close>

definition html_document :: "lib \<Rightarrow> args \<Rightarrow> state \<Rightarrow> string list" where
  "html_document L a st =
     html_head @ html_counts (total_processed_fonts st) (fonts_with_issues st)
       @ html_readme L @ html_table a (table_rows st)"

text \<open>
  The run: the final state of the loop and the file written at \<^verbatim>\<open>args.html_file\<close>.
  Creating the output directory and opening the HTML file are taken to succeed.
\<close>

definition main :: "lib \<Rightarrow> args \<Rightarrow> state \<times> (string \<times> string)" where
  "main L a =
     (let st = main_loop L a (font_iterator L a) initial_state
      in (st, (html_file a, concat (html_document L a st))))"

section \<open>font-renderer.py\<close>

text \<open>
  The rasterizer of the single-render tool measures width and height from the same box;
  its fallback takes both from \<^verbatim>\<open>textsize\<close>.
\<close>

definition text_extent_of :: "imagefont \<Rightarrow> string \<Rightarrow> exn + (int \<times> int)" where
  "text_extent_of font txt =
     (case textbbox font txt of
        Inr (l, t, r, b) \<Rightarrow> Inr (r - l, b - t)
      | Inl (TypeError m) \<Rightarrow> textsize font txt
      | Inl (Exception m) \<Rightarrow> Inl (Exception m))"

definition renderer_render_text_try ::
  "lib \<Rightarrow> string \<Rightarrow> string \<Rightarrow> string \<Rightarrow> int \<Rightarrow> exn + saved_file" where
  "renderer_render_text_try L txt font_path image_path sz =
     (case truetype L font_path sz of
        Inl e \<Rightarrow> Inl e
      | Inr font \<Rightarrow>
          (case text_extent_of font txt of
             Inl e \<Rightarrow> Inl e
           | Inr (text_width, text_height) \<Rightarrow>
               draw_and_save L font txt image_path (text_width + 20, text_height + 20)))"

definition renderer_render_text ::
  "lib \<Rightarrow> string \<Rightarrow> string \<Rightarrow> string \<Rightarrow> int \<Rightarrow> bool \<times> saved_file option" where
  "renderer_render_text L txt font_path image_path sz =
     (case renderer_render_text_try L txt font_path image_path sz of
        Inl e \<Rightarrow> (False, None)
      | Inr f \<Rightarrow> (True, Some f))"

section \<open>A small world for concrete runs\<close>

text \<open>
  Fonts whose glyph for a character is named by that character, with a chosen advance
  width for each glyph and 1000 units per em: one with every width 500, one where \<open>B\<close>
  has width 0, one where \<open>A\<close> has width 50000 and \<open>B\<close> width 0, one without the space, one
  with two punctuation marks only. A face whose text box starts one pixel right of the
  origin, gives 12 pixels to each character other than a space, \<open>gap\<close> pixels to a space
  inside a text and 12 to the lone space.
\<close>

definition glyphs_of :: "string \<Rightarrow> cmap" where
  "glyphs_of s = map (\<lambda>c. (of_char c, [c])) s"

definition hmtx_of :: "(string \<Rightarrow> int) \<Rightarrow> string \<Rightarrow> exn + (int \<times> int)" where
  "hmtx_of width g = Inr (width g, 0)"

definition demo_font :: "string \<Rightarrow> (string \<Rightarrow> int) \<Rightarrow> ttfont" where
  "demo_font chars width =
     \<lparr>getBestCmap = Inr (Some (glyphs_of chars)),
      hmtx = Inr (hmtx_of width),
      unitsPerEm = Inr 1000,
      names = Inr [(1, Inr ''Demo''), (2, Inr ''Regular''), (4, Inr ''Demo Regular'')]\<rparr>"

definition zero_width :: "string \<Rightarrow> int" where
  "zero_width g = (if g = ''B'' then 0 else 500)"

definition wide_width :: "string \<Rightarrow> int" where
  "wide_width g = (if g = ''A'' then 50000 else if g = ''B'' then 0 else 500)"

definition flat_width :: "string \<Rightarrow> int" where
  "flat_width g = 500"

definition good_font :: ttfont where
  "good_font = demo_font (CHR '' '' # required_chars) flat_width"

definition zero_font :: ttfont where
  "zero_font = demo_font (CHR '' '' # required_chars) zero_width"

definition wide_font :: ttfont where
  "wide_font = demo_font (CHR '' '' # required_chars) wide_width"

definition nospace_font :: ttfont where
  "nospace_font = demo_font required_chars flat_width"

definition punct_font :: ttfont where
  "punct_font = demo_font ''!?'' flat_width"

definition demo_face :: "int \<Rightarrow> imagefont" where
  "demo_face gap =
     \<lparr>getmetrics = Inr (22, - 6),
      textbbox = (\<lambda>s.
        if s = '' '' then Inr (1, 5, 13, 25)
        else Inr (1, 5, 1 + 12 * int (length (filter (\<lambda>c. c \<noteq> CHR '' '') s))
                          + gap * int (length (filter (\<lambda>c. c = CHR '' '') s)), 25)),
      textsize = (\<lambda>s. Inl (Exception ''textsize was removed''))\<rparr>"

text \<open>A face of an older Pillow: \<^verbatim>\<open>textbbox\<close> raises \<^verbatim>\<open>TypeError\<close>, \<^verbatim>\<open>textsize\<close> answers.\<close>

definition legacy_face :: imagefont where
  "legacy_face =
     \<lparr>getmetrics = Inr (22, - 6),
      textbbox = (\<lambda>s. Inl (TypeError ''unexpected keyword argument'')),
      textsize = (\<lambda>s. Inr (12 * int (length s), 20))\<rparr>"

definition demo_lib :: lib where
  "demo_lib =
     \<lparr>TTFont = (\<lambda>p.
        if p = ''fonts/good.ttf'' \<or> p = ''fonts/noface.ttf'' \<or> p = ''fonts/loose.ttf''
           \<or> p = ''fonts/legacy.ttf''
        then Inr good_font
        else if p = ''fonts/zero.ttf'' then Inr zero_font
        else if p = ''fonts/wide.ttf'' then Inr wide_font
        else if p = ''fonts/nospace.ttf'' then Inr nospace_font
        else if p = ''fonts/punct.ttf'' then Inr punct_font
        else Inl (Exception ''Not a TrueType or OpenType font'')),
      truetype = (\<lambda>p sz.
        if p = ''fonts/good.ttf'' \<or> p = ''fonts/zero.ttf'' then Inr (demo_face 12)
        else if p = ''fonts/loose.ttf'' then Inr (demo_face 14)
        else if p = ''fonts/legacy.ttf'' then Inr legacy_face
        else Inl (Exception ''cannot open resource'')),
      Image_new = (\<lambda>m dims. None),
      draw_text = (\<lambda>img font txt. None),
      save = (\<lambda>img p fmt. None),
      basename = (\<lambda>p. rev (takeWhile (\<lambda>c. c \<noteq> CHR ''/'') (rev p))),
      relpath = (\<lambda>p. p),
      path_join = (\<lambda>d f. d @ ''/'' @ f),
      walk = (\<lambda>d. [(d, [], [''zero.ttf'', ''notes.txt'', ''broken.ttf'', ''good.ttf''])]),
      readme = None\<rparr>"

definition demo_args :: args where
  "demo_args =
     \<lparr>text_arg = ''Hi'', output_dir = ''renders'', html_file = ''index.html'', font_size = 24,
      slow_check = False, font_dir = ''fonts'', number = None\<rparr>"

definition slow_args :: args where
  "slow_args = demo_args\<lparr>slow_check := True\<rparr>"

definition capped_args :: args where
  "capped_args = demo_args\<lparr>number := Some 2\<rparr>"

definition dropping_args :: args where
  "dropping_args = demo_args\<lparr>number := Some (- 1)\<rparr>"

text \<open>A second world with the same fonts, where saving to \<^verbatim>\<open>a.png\<close> fails.\<close>

definition save_unless_a :: "image \<Rightarrow> string \<Rightarrow> string \<Rightarrow> exn option" where
  "save_unless_a img p fmt = (if p = ''a.png'' then Some (Exception ''Permission denied'') else None)"

definition other_lib :: lib where
  "other_lib = demo_lib\<lparr>save := save_unless_a, readme := Some ''<h1>Fonts</h1>''\<rparr>"

definition demo_png :: "string \<Rightarrow> string \<Rightarrow> int \<times> int \<Rightarrow> saved_file" where
  "demo_png image_path txt dims =
     \<lparr>file_path = image_path, file_format = ''PNG'',
      file_image = \<lparr>im_mode = ''RGBA'', im_size = dims, im_color = (255, 255, 255, 0),
                     im_drawn = [((10, 10), txt, ''black'')]\<rparr>\<rparr>"

definition demo_info :: font_info where
  "demo_info =
     \<lparr>family = ''Demo'', style = ''Regular'', full_name = ''Demo Regular'',
      version = ''N/A'', copyright = ''N/A''\<rparr>"

section \<open>The invariant of the loop\<close>

text \<open>
  What every state reached by the loop satisfies: the fonts with issues are among the
  fonts processed, and each font processed has one row of eight strings, one of them
  \<^verbatim>\<open><tr>\<close>, and at most one image.
\<close>

definition loop_invariant :: "state \<Rightarrow> bool" where
  "loop_invariant st \<longleftrightarrow>
     0 \<le> fonts_with_issues st \<and> fonts_with_issues st \<le> total_processed_fonts st
     \<and> int (length (table_rows st)) = 8 * total_processed_fonts st
     \<and> int (length (filter (\<lambda>s. s = ''<tr>'') (table_rows st))) = total_processed_fonts st
     \<and> int (length (renders st)) \<le> total_processed_fonts st"

section \<open>The loop, one font at a time\<close>

lemma chars_in_cmap_iff:
  "chars_in_cmap cm cs \<longleftrightarrow> (\<forall>c \<in> set cs. of_char c \<in> fst ` set cm)"
  by (induction cs) (auto simp: map_of_eq_None_iff)

lemma has_required_chars_iff:
  "has_required_chars L p \<longleftrightarrow>
     (\<exists>font cm. TTFont L p = Inr font \<and> getBestCmap font = Inr (Some cm) \<and> cm \<noteq> []
        \<and> (\<forall>c \<in> set required_chars. of_char c \<in> fst ` set cm))"
  by (auto simp: has_required_chars_def chars_in_cmap_iff split: sum.splits option.splits)

lemma process_font_skip: "\<not> has_required_chars L p \<Longrightarrow> process_font L a st p = st"
  by (simp add: process_font_def)

lemma main_loop_append:
  "main_loop L a (xs @ ys) st = main_loop L a ys (main_loop L a xs st)"
  by (simp add: main_loop_def)

lemma main_loop_Cons:
  "main_loop L a (p # ys) st = main_loop L a ys (process_font L a st p)"
  by (simp add: main_loop_def)

lemma main_loop_Nil: "main_loop L a [] st = st"
  by (simp add: main_loop_def)

section \<open>Facts about the small world\<close>

lemmas demo_defs =
  demo_lib_def demo_font_def demo_face_def legacy_face_def demo_args_def glyphs_of_def required_chars_def
  hmtx_of_def good_font_def zero_font_def wide_font_def nospace_font_def punct_font_def
  zero_width_def wide_width_def flat_width_def slow_args_def

lemma required_chars_length: "length required_chars = 62"
  by (simp add: required_chars_def)

lemma map_of_glyphs_of:
  "map_of (glyphs_of s) (of_char c) = (if c \<in> set s then Some [c] else None)"
  by (induction s) (auto simp: glyphs_of_def)

lemma glyphs_of_keys: "fst ` set (glyphs_of s) = of_char ` set s"
  by (force simp: glyphs_of_def)

lemma demo_font_fields:
  "getBestCmap (demo_font s w) = Inr (Some (glyphs_of s))"
  "hmtx (demo_font s w) = Inr (hmtx_of w)"
  "unitsPerEm (demo_font s w) = Inr 1000"
  by (simp_all add: demo_font_def)

lemma demo_TTFont:
  "TTFont demo_lib ''fonts/good.ttf'' = Inr good_font"
  "TTFont demo_lib ''fonts/noface.ttf'' = Inr good_font"
  "TTFont demo_lib ''fonts/loose.ttf'' = Inr good_font"
  "TTFont demo_lib ''fonts/legacy.ttf'' = Inr good_font"
  "TTFont demo_lib ''fonts/zero.ttf'' = Inr zero_font"
  "TTFont demo_lib ''fonts/wide.ttf'' = Inr wide_font"
  "TTFont demo_lib ''fonts/nospace.ttf'' = Inr nospace_font"
  "TTFont demo_lib ''fonts/punct.ttf'' = Inr punct_font"
  "TTFont demo_lib ''fonts/broken.ttf'' = Inl (Exception ''Not a TrueType or OpenType font'')"
  by (simp_all add: demo_lib_def)

lemma demo_font_coverage:
  assumes "TTFont L p = Inr (demo_font s w)" and "set required_chars \<subseteq> set s"
  shows "has_required_chars L p"
proof -
  from assms(2) have "s \<noteq> []"
    by (auto simp: required_chars_def)
  then have "glyphs_of s \<noteq> []"
    by (simp add: glyphs_of_def)
  with assms show ?thesis
    unfolding has_required_chars_iff by (auto simp: demo_font_fields glyphs_of_keys)
qed

lemma demo_coverage:
  "has_required_chars demo_lib ''fonts/good.ttf''"
  "has_required_chars demo_lib ''fonts/zero.ttf''"
  "has_required_chars demo_lib ''fonts/loose.ttf''"
  "has_required_chars demo_lib ''fonts/noface.ttf''"
  "\<not> has_required_chars demo_lib ''fonts/broken.ttf''"
proof -
  have sub: "set required_chars \<subseteq> set (CHR '' '' # required_chars)"
    by auto
  show "has_required_chars demo_lib ''fonts/good.ttf''"
    "has_required_chars demo_lib ''fonts/loose.ttf''"
    "has_required_chars demo_lib ''fonts/noface.ttf''"
    using sub by (simp_all add: demo_font_coverage [of demo_lib _ _ flat_width] demo_TTFont good_font_def)
  show "has_required_chars demo_lib ''fonts/zero.ttf''"
    using sub by (simp add: demo_font_coverage [of demo_lib _ _ zero_width] demo_TTFont zero_font_def)
  show "\<not> has_required_chars demo_lib ''fonts/broken.ttf''"
    by (simp add: has_required_chars_def demo_TTFont)
qed

lemma demo_info:
  "p = ''fonts/good.ttf'' \<or> p = ''fonts/zero.ttf'' \<or> p = ''fonts/loose.ttf''
     \<or> p = ''fonts/noface.ttf''
   \<Longrightarrow> get_font_info demo_lib p =
        Some \<lparr>family = ''Demo'', style = ''Regular'', full_name = ''Demo Regular'',
              version = ''N/A'', copyright = ''N/A''\<rparr>"
  by (auto simp add: get_font_info_def dict_get_def demo_TTFont good_font_def zero_font_def
        demo_font_def)

lemma widths_loop_demo:
  assumes "\<forall>d \<in> set cs. d \<in> set s \<longrightarrow> w [d] \<noteq> 0 \<and> w [d] \<le> upm * 10"
  shows "widths_loop (glyphs_of s) (hmtx_of w) upm cs ws
       = Inr (Inr (ws @ map (\<lambda>d. w [d]) (filter (\<lambda>d. d \<in> set s) cs)))"
  using assms
  by (induction cs arbitrary: ws) (auto simp: map_of_glyphs_of hmtx_of_def)

lemma check_font_metrics_demo:
  assumes "TTFont L p = Inr (demo_font s w)" and "s \<noteq> []"
    and "\<forall>d \<in> set required_chars. d \<in> set s \<longrightarrow> w [d] \<noteq> 0 \<and> w [d] \<le> 1000 * 10"
  shows "check_font_metrics L p =
     (case after_widths (glyphs_of s) (hmtx_of w)
             (map (\<lambda>d. w [d]) (filter (\<lambda>d. d \<in> set s) required_chars)) of
        Inl e \<Rightarrow> (False, ''Could not check metrics: '' @ str_exn e)
      | Inr result \<Rightarrow> result)"
proof -
  from assms(2) have "glyphs_of s \<noteq> []"
    by (simp add: glyphs_of_def)
  with assms(1) widths_loop_demo [OF assms(3), of "[]"] show ?thesis
    by (simp add: check_font_metrics_def check_font_metrics_try_def demo_font_fields)
qed

lemma flat_metrics:
  assumes "TTFont L p = Inr (demo_font (CHR '' '' # required_chars) flat_width)"
  shows "check_font_metrics L p = (True, [])"
proof -
  have f: "filter (\<lambda>d. d \<in> set (CHR '' '' # required_chars)) required_chars = required_chars"
    by (simp add: filter_id_conv)
  have m: "map (\<lambda>d. flat_width [d]) required_chars = replicate 62 500"
    by (simp add: flat_width_def map_replicate_const required_chars_length)
  have "after_widths (glyphs_of (CHR '' '' # required_chars)) (hmtx_of flat_width)
          (replicate 62 500) = Inr (True, [])"
    by (simp add: after_widths_def map_of_glyphs_of hmtx_of_def flat_width_def
          sum_list_replicate del: of_char_Char)
  with check_font_metrics_demo [OF assms] f m show ?thesis
    by (simp add: flat_width_def)
qed

lemma demo_metrics:
  "check_font_metrics demo_lib ''fonts/good.ttf'' = (True, [])"
  "check_font_metrics demo_lib ''fonts/loose.ttf'' = (True, [])"
  "check_font_metrics demo_lib ''fonts/noface.ttf'' = (True, [])"
  "check_font_metrics demo_lib ''fonts/legacy.ttf'' = (True, [])"
  \<open>check_font_metrics demo_lib ''fonts/zero.ttf'' = (False, ''Character \'B\' has zero width'')\<close>
  \<open>check_font_metrics demo_lib ''fonts/wide.ttf''
     = (False, ''Character \'A\' has excessively large width'')\<close>
  "check_font_metrics demo_lib ''fonts/punct.ttf'' = (False, ''No alphanumeric characters found'')"
  "check_font_metrics demo_lib ''fonts/nospace.ttf'' = (False, ''No space character'')"
proof -
  show "check_font_metrics demo_lib ''fonts/good.ttf'' = (True, [])"
    "check_font_metrics demo_lib ''fonts/loose.ttf'' = (True, [])"
    "check_font_metrics demo_lib ''fonts/noface.ttf'' = (True, [])"
    "check_font_metrics demo_lib ''fonts/legacy.ttf'' = (True, [])"
    by (simp_all add: flat_metrics demo_TTFont good_font_def)
  show \<open>check_font_metrics demo_lib ''fonts/zero.ttf'' = (False, ''Character \'B\' has zero width'')\<close>
    by (simp add: check_font_metrics_def check_font_metrics_try_def demo_TTFont zero_font_def
          demo_font_fields glyphs_of_def required_chars_def hmtx_of_def zero_width_def)
  show \<open>check_font_metrics demo_lib ''fonts/wide.ttf''
     = (False, ''Character \'A\' has excessively large width'')\<close>
    by (simp add: check_font_metrics_def check_font_metrics_try_def demo_TTFont wide_font_def
          demo_font_fields glyphs_of_def required_chars_def hmtx_of_def wide_width_def)
  have "filter (\<lambda>d. d \<in> set ''!?'') required_chars = []"
    by (simp add: required_chars_def)
  with check_font_metrics_demo [of demo_lib "''fonts/punct.ttf''" "''!?''" flat_width]
  show "check_font_metrics demo_lib ''fonts/punct.ttf'' = (False, ''No alphanumeric characters found'')"
    by (simp add: demo_TTFont punct_font_def flat_width_def after_widths_def)
  have sp: "CHR '' '' \<notin> set required_chars"
    by (simp add: required_chars_def)
  have "required_chars \<noteq> []"
    by (simp add: required_chars_def)
  with check_font_metrics_demo [of demo_lib "''fonts/nospace.ttf''" required_chars flat_width] sp
    map_of_glyphs_of [of required_chars "CHR '' ''"]
  show "check_font_metrics demo_lib ''fonts/nospace.ttf'' = (False, ''No space character'')"
    by (simp add: demo_TTFont nospace_font_def flat_width_def after_widths_def del: of_char_Char)
qed

lemma demo_slow_check:
  "slow_check_font demo_lib ''fonts/good.ttf'' 24 = (True, [])"
  "slow_check_font demo_lib ''fonts/loose.ttf'' 24 = (False, ''Potential kerning issue'')"
  "slow_check_font demo_lib ''fonts/noface.ttf'' 24 =
     (False, ''Could not perform slow check: cannot open resource'')"
  by (simp_all add: slow_check_font_def slow_check_font_try_def probe_widths_def
        three_widths_def bbox_right_def demo_defs)

lemma demo_found:
  "find_fonts demo_lib ''fonts'' = [''fonts/zero.ttf'', ''fonts/broken.ttf'', ''fonts/good.ttf'']"
  by (simp add: find_fonts_def endswith_def lower_def lower_char_def demo_defs)

section \<open>Coverage\<close>

text \<open>
  C1. A font whose coverage check fails leaves no trace in the report. The check fails
  when \<^verbatim>\<open>TTFont\<close> raises, when \<^verbatim>\<open>getBestCmap\<close> raises or returns \<^verbatim>\<open>None\<close> or an empty
  dict, or when one of the 62 required characters is no key of the map. For such a font
  the iteration returns the state it was given (the two counters, the rows and the image
  files), and a run over a list that holds the font ends in the state of the run over the
  list without it.
\<close>

theorem coverage_failure_no_row:
  assumes "(\<exists>e. TTFont L p = Inl e)
         \<or> (\<exists>font. TTFont L p = Inr font
              \<and> ((\<exists>e. getBestCmap font = Inl e)
                 \<or> getBestCmap font = Inr None
                 \<or> getBestCmap font = Inr (Some [])
                 \<or> (\<exists>cm c. getBestCmap font = Inr (Some cm) \<and> c \<in> set required_chars
                       \<and> of_char c \<notin> fst ` set cm)))"
  shows "length required_chars = 62
       \<and> \<not> has_required_chars L p
       \<and> process_font L a st p = st
       \<and> main_loop L a (xs @ p # ys) st = main_loop L a (xs @ ys) st"
proof -
  from assms have no: "\<not> has_required_chars L p"
    unfolding has_required_chars_iff by auto
  have "length required_chars = 62"
    by (simp add: required_chars_def)
  with no show ?thesis
    by (simp add: main_loop_append main_loop_Cons process_font_skip)
qed

theorem coverage_failure_no_row_witness:
  "TTFont demo_lib ''fonts/punct.ttf'' = Inr punct_font
   \<and> getBestCmap punct_font = Inr (Some (glyphs_of ''!?''))
   \<and> CHR ''A'' \<in> set required_chars
   \<and> of_char CHR ''A'' \<notin> fst ` set (glyphs_of ''!?'')
   \<and> process_font demo_lib demo_args initial_state ''fonts/punct.ttf'' = initial_state
   \<and> main_loop demo_lib demo_args [''fonts/punct.ttf''] initial_state = initial_state"
proof -
  have t: "TTFont demo_lib ''fonts/punct.ttf'' = Inr punct_font"
    by (simp add: demo_lib_def)
  have c: "getBestCmap punct_font = Inr (Some (glyphs_of ''!?''))"
    by (simp add: punct_font_def demo_font_def)
  have r: "CHR ''A'' \<in> set required_chars"
    by (simp add: required_chars_def)
  have k: "of_char CHR ''A'' \<notin> fst ` set (glyphs_of ''!?'')"
    by (simp add: glyphs_of_def)
  from t c r k have h: "(\<exists>e. TTFont demo_lib ''fonts/punct.ttf'' = Inl e)
         \<or> (\<exists>font. TTFont demo_lib ''fonts/punct.ttf'' = Inr font
              \<and> ((\<exists>e. getBestCmap font = Inl e)
                 \<or> getBestCmap font = Inr None
                 \<or> getBestCmap font = Inr (Some [])
                 \<or> (\<exists>cm c. getBestCmap font = Inr (Some cm) \<and> c \<in> set required_chars
                       \<and> of_char c \<notin> fst ` set cm)))"
    by blast
  from coverage_failure_no_row [OF h, of demo_args initial_state "[]" "[]"] t c r k
  show ?thesis by (simp add: main_loop_Nil)
qed

lemma widths_loop_done:
  "widths_loop cm hm upm cs ws = Inr (Inr ws') \<Longrightarrow> c \<in> set cs \<Longrightarrow>
   map_of cm (of_char c) = Some g \<Longrightarrow> \<exists>w l. hm g = Inr (w, l) \<and> w \<noteq> 0 \<and> w \<le> upm * 10"
  by (induction cs arbitrary: ws) (auto split: option.splits sum.splits prod.splits if_splits)

lemma widths_loop_return_fails:
  "widths_loop cm hm upm cs ws = Inr (Inl r) \<Longrightarrow> \<not> fst r"
  by (induction cs arbitrary: ws) (auto split: option.splits sum.splits prod.splits if_splits)

lemma widths_loop_prefix_ok:
  assumes "\<forall>d \<in> set pre. \<forall>gd. map_of cm (of_char d) = Some gd \<longrightarrow>
             (\<exists>w l. hm gd = Inr (w, l) \<and> w \<noteq> 0 \<and> w \<le> upm * 10)"
  shows "\<exists>ws'. widths_loop cm hm upm (pre @ rest) ws = widths_loop cm hm upm rest ws'
           \<and> length ws' = length ws + length (filter (\<lambda>d. map_of cm (of_char d) \<noteq> None) pre)"
  using assms
proof (induction pre arbitrary: ws)
  case Nil
  then show ?case by auto
next
  case (Cons d pre)
  show ?case
  proof (cases "map_of cm (of_char d)")
    case None
    with Cons.IH [of ws] Cons.prems show ?thesis by simp
  next
    case (Some gd)
    with Cons.prems obtain w l where w: "hm gd = Inr (w, l)" "w \<noteq> 0" "w \<le> upm * 10"
      by auto
    from Cons.IH [of "ws @ [w]"] Cons.prems
    obtain ws' where "widths_loop cm hm upm (pre @ rest) (ws @ [w]) = widths_loop cm hm upm rest ws'"
      "length ws' = length (ws @ [w]) + length (filter (\<lambda>d. map_of cm (of_char d) \<noteq> None) pre)"
      by auto
    with Some w show ?thesis by auto
  qed
qed

section \<open>The metric checker\<close>

text \<open>
  C2 (as amended). A font in which a required character of the character map has advance
  width 0 never passes the metric checker. The reason names a zero-width character \<open>c\<close>
  when \<open>c\<close> is the first character of \<^verbatim>\<open>required_chars\<close> at which the loop stops: units per
  em must be readable, and every required character before \<open>c\<close> that the map holds must
  have a readable advance width, not 0 and not above ten times the units per em.
\<close>

theorem zero_width_fails:
  assumes font: "TTFont L p = Inr font" "getBestCmap font = Inr (Some cm)" "hmtx font = Inr hm"
    and c: "c \<in> set required_chars" "map_of cm (of_char c) = Some g" "hm g = Inr (0, lsb)"
  shows "\<not> fst (check_font_metrics L p)
    \<and> (\<forall>upm pre post. unitsPerEm font = Inr upm \<longrightarrow> required_chars = pre @ c # post \<longrightarrow>
          (\<forall>d \<in> set pre. \<forall>gd. map_of cm (of_char d) = Some gd \<longrightarrow>
             (\<exists>w l. hm gd = Inr (w, l) \<and> w \<noteq> 0 \<and> w \<le> upm * 10)) \<longrightarrow>
          check_font_metrics L p =
            (False, ''Character '' @ [CHR 0x27, c, CHR 0x27] @ '' has zero width''))"
proof
  from c(2) have ne: "cm \<noteq> []" by auto
  show "\<not> fst (check_font_metrics L p)"
  proof (cases "unitsPerEm font")
    case (Inl e)
    with font ne show ?thesis
      by (simp add: check_font_metrics_def check_font_metrics_try_def)
  next
    case (Inr upm)
    show ?thesis
    proof (cases "widths_loop cm hm upm required_chars []")
      case (Inl e)
      with font ne Inr show ?thesis
        by (simp add: check_font_metrics_def check_font_metrics_try_def)
    next
      case res: (Inr r)
      show ?thesis
      proof (cases r)
        case (Inl result)
        with res widths_loop_return_fails [of cm hm upm required_chars "[]" result]
        have "\<not> fst result" by simp
        with font ne Inr res Inl show ?thesis
          by (simp add: check_font_metrics_def check_font_metrics_try_def)
      next
        case (Inr ws)
        with res widths_loop_done [of cm hm upm required_chars "[]" ws c g] c
        show ?thesis by simp
      qed
    qed
  qed
next
  from c(2) have ne: "cm \<noteq> []" by auto
  show "\<forall>upm pre post. unitsPerEm font = Inr upm \<longrightarrow> required_chars = pre @ c # post \<longrightarrow>
          (\<forall>d \<in> set pre. \<forall>gd. map_of cm (of_char d) = Some gd \<longrightarrow>
             (\<exists>w l. hm gd = Inr (w, l) \<and> w \<noteq> 0 \<and> w \<le> upm * 10)) \<longrightarrow>
          check_font_metrics L p =
            (False, ''Character '' @ [CHR 0x27, c, CHR 0x27] @ '' has zero width'')"
  proof (intro allI impI)
    fix upm pre post
    assume u: "unitsPerEm font = Inr upm" and split: "required_chars = pre @ c # post"
      and ok: "\<forall>d \<in> set pre. \<forall>gd. map_of cm (of_char d) = Some gd \<longrightarrow>
             (\<exists>w l. hm gd = Inr (w, l) \<and> w \<noteq> 0 \<and> w \<le> upm * 10)"
    from widths_loop_prefix_ok [OF ok, of "c # post" "[]"]
    obtain ws' where "widths_loop cm hm upm (pre @ c # post) [] = widths_loop cm hm upm (c # post) ws'"
      by auto
    with c have "widths_loop cm hm upm required_chars [] =
        Inr (Inl (False, ''Character '' @ [CHR 0x27, c, CHR 0x27] @ '' has zero width''))"
      by (simp add: split)
    with font ne u show "check_font_metrics L p =
            (False, ''Character '' @ [CHR 0x27, c, CHR 0x27] @ '' has zero width'')"
      by (simp add: check_font_metrics_def check_font_metrics_try_def)
  qed
qed

theorem zero_width_fails_witness:
  \<open>TTFont demo_lib ''fonts/zero.ttf'' = Inr zero_font
   \<and> getBestCmap zero_font = Inr (Some (glyphs_of (CHR '' '' # required_chars)))
   \<and> hmtx zero_font = Inr (hmtx_of zero_width)
   \<and> unitsPerEm zero_font = Inr 1000
   \<and> CHR ''B'' \<in> set required_chars
   \<and> map_of (glyphs_of (CHR '' '' # required_chars)) (of_char CHR ''B'') = Some ''B''
   \<and> hmtx_of zero_width ''B'' = Inr (0, 0)
   \<and> hmtx_of zero_width ''A'' = Inr (500, 0)
   \<and> \<not> fst (check_font_metrics demo_lib ''fonts/zero.ttf'')
   \<and> check_font_metrics demo_lib ''fonts/zero.ttf'' = (False, ''Character \'B\' has zero width'')\<close>
proof -
  let ?cm = "glyphs_of (CHR '' '' # required_chars)"
  have t: "TTFont demo_lib ''fonts/zero.ttf'' = Inr zero_font"
    by (simp add: demo_lib_def)
  have cm: "getBestCmap zero_font = Inr (Some ?cm)"
    and hm: "hmtx zero_font = Inr (hmtx_of zero_width)"
    and u: "unitsPerEm zero_font = Inr 1000"
    by (simp_all add: zero_font_def demo_font_def)
  have r: "CHR ''B'' \<in> set required_chars"
    by (simp add: required_chars_def)
  have g: "map_of ?cm (of_char CHR ''B'') = Some ''B''"
    by (simp add: glyphs_of_def required_chars_def)
  have z: "hmtx_of zero_width ''B'' = Inr (0, 0)" and a: "hmtx_of zero_width ''A'' = Inr (500, 0)"
    by (simp_all add: hmtx_of_def zero_width_def)
  have split: "required_chars =
      ''A'' @ CHR ''B'' # ''CDEFGHIJKLMNOPQRSTUVWXYZabcdefghijklmnopqrstuvwxyz0123456789''"
    by (simp add: required_chars_def)
  have ok: "\<forall>d \<in> set ''A''. \<forall>gd. map_of ?cm (of_char d) = Some gd \<longrightarrow>
             (\<exists>w l. hmtx_of zero_width gd = Inr (w, l) \<and> w \<noteq> 0 \<and> w \<le> 1000 * 10)"
    by (simp add: glyphs_of_def required_chars_def hmtx_of_def zero_width_def)
  from zero_width_fails [OF t cm hm r g z] u split ok
  have "\<not> fst (check_font_metrics demo_lib ''fonts/zero.ttf'')"
    and "check_font_metrics demo_lib ''fonts/zero.ttf'' =
          (False, ''Character '' @ [CHR 0x27, CHR ''B'', CHR 0x27] @ '' has zero width'')"
    by blast+
  with t cm hm u r g z a show ?thesis by simp
qed

theorem zero_width_cited_counterexample:
  \<open>TTFont demo_lib ''fonts/wide.ttf'' = Inr wide_font
   \<and> getBestCmap wide_font = Inr (Some (glyphs_of (CHR '' '' # required_chars)))
   \<and> hmtx wide_font = Inr (hmtx_of wide_width)
   \<and> CHR ''B'' \<in> set required_chars
   \<and> map_of (glyphs_of (CHR '' '' # required_chars)) (of_char CHR ''B'') = Some ''B''
   \<and> hmtx_of wide_width ''B'' = Inr (0, 0)
   \<and> check_font_metrics demo_lib ''fonts/wide.ttf''
        = (False, ''Character \'A\' has excessively large width'')
   \<and> check_font_metrics demo_lib ''fonts/wide.ttf''
        \<noteq> (False, ''Character \'B\' has zero width'')\<close>
proof -
  have "TTFont demo_lib ''fonts/wide.ttf'' = Inr wide_font"
    by (simp add: demo_lib_def)
  moreover have "getBestCmap wide_font = Inr (Some (glyphs_of (CHR '' '' # required_chars)))"
    and "hmtx wide_font = Inr (hmtx_of wide_width)"
    by (simp_all add: wide_font_def demo_font_def)
  moreover have "CHR ''B'' \<in> set required_chars"
    by (simp add: required_chars_def)
  moreover have "map_of (glyphs_of (CHR '' '' # required_chars)) (of_char CHR ''B'') = Some ''B''"
    by (simp add: glyphs_of_def required_chars_def)
  moreover have "hmtx_of wide_width ''B'' = Inr (0, 0)"
    by (simp add: hmtx_of_def wide_width_def)
  ultimately show ?thesis
    by (simp add: demo_metrics)
qed

text \<open>
  C3 (as amended). The reason is \<^verbatim>\<open>No space character\<close> when the font opens, its
  character map holds no code point 32 but at least one required character, the
  horizontal metrics and the units per em are readable, and every required character of
  the map has a readable advance width, not 0 and not above ten times the units per em.
  The checks on the map and on the alphanumeric widths come first in the source, and
  their reasons win.
\<close>

theorem no_space_reason:
  assumes font: "TTFont L p = Inr font" "getBestCmap font = Inr (Some cm)"
      "hmtx font = Inr hm" "unitsPerEm font = Inr upm"
    and nospace: "map_of cm (of_char CHR '' '') = None"
    and some: "\<exists>c \<in> set required_chars. map_of cm (of_char c) \<noteq> None"
    and ok: "\<forall>c \<in> set required_chars. \<forall>g. map_of cm (of_char c) = Some g \<longrightarrow>
               (\<exists>w l. hm g = Inr (w, l) \<and> w \<noteq> 0 \<and> w \<le> upm * 10)"
  shows "check_font_metrics L p = (False, ''No space character'')"
proof -
  from some have ne: "cm \<noteq> []" by auto
  from widths_loop_prefix_ok [OF ok, of "[]" "[]"]
  obtain ws where ws: "widths_loop cm hm upm required_chars [] = Inr (Inr ws)"
    and len: "length ws = length (filter (\<lambda>d. map_of cm (of_char d) \<noteq> None) required_chars)"
    by auto
  from some have "filter (\<lambda>d. map_of cm (of_char d) \<noteq> None) required_chars \<noteq> []"
    by (simp add: filter_empty_conv)
  with len have "ws \<noteq> []" by auto
  with nospace have "after_widths cm hm ws = Inr (False, ''No space character'')"
    by (simp add: after_widths_def)
  with font ne ws show ?thesis
    by (simp add: check_font_metrics_def check_font_metrics_try_def)
qed

theorem no_space_reason_witness:
  "TTFont demo_lib ''fonts/nospace.ttf'' = Inr nospace_font
   \<and> getBestCmap nospace_font = Inr (Some (glyphs_of required_chars))
   \<and> hmtx nospace_font = Inr (hmtx_of flat_width)
   \<and> unitsPerEm nospace_font = Inr 1000
   \<and> map_of (glyphs_of required_chars) (of_char CHR '' '') = None
   \<and> map_of (glyphs_of required_chars) (of_char CHR ''A'') = Some ''A''
   \<and> check_font_metrics demo_lib ''fonts/nospace.ttf'' = (False, ''No space character'')"
proof -
  have t: "TTFont demo_lib ''fonts/nospace.ttf'' = Inr nospace_font"
    by (simp add: demo_lib_def)
  have cm: "getBestCmap nospace_font = Inr (Some (glyphs_of required_chars))"
    and hm: "hmtx nospace_font = Inr (hmtx_of flat_width)"
    and u: "unitsPerEm nospace_font = Inr 1000"
    by (simp_all add: nospace_font_def demo_font_def)
  have n: "map_of (glyphs_of required_chars) (of_char CHR '' '') = None"
    and a: "map_of (glyphs_of required_chars) (of_char CHR ''A'') = Some ''A''"
    by (simp_all add: glyphs_of_def required_chars_def)
  have r: "CHR ''A'' \<in> set required_chars"
    by (simp add: required_chars_def)
  from a r have some: "\<exists>c \<in> set required_chars. map_of (glyphs_of required_chars) (of_char c) \<noteq> None"
    by force
  have ok: "\<forall>c \<in> set required_chars. \<forall>g. map_of (glyphs_of required_chars) (of_char c) = Some g \<longrightarrow>
               (\<exists>w l. hmtx_of flat_width g = Inr (w, l) \<and> w \<noteq> 0 \<and> w \<le> 1000 * 10)"
    by (simp add: hmtx_of_def flat_width_def)
  from no_space_reason [OF t cm hm u n some ok] t cm hm u n a show ?thesis
    by simp
qed

theorem no_space_reason_counterexample:
  "TTFont demo_lib ''fonts/punct.ttf'' = Inr punct_font
   \<and> getBestCmap punct_font = Inr (Some (glyphs_of ''!?''))
   \<and> map_of (glyphs_of ''!?'') (of_char CHR '' '') = None
   \<and> check_font_metrics demo_lib ''fonts/punct.ttf'' = (False, ''No alphanumeric characters found'')
   \<and> check_font_metrics demo_lib ''fonts/punct.ttf'' \<noteq> (False, ''No space character'')"
proof -
  have "TTFont demo_lib ''fonts/punct.ttf'' = Inr punct_font"
    by (simp add: demo_lib_def)
  moreover have "getBestCmap punct_font = Inr (Some (glyphs_of ''!?''))"
    by (simp add: punct_font_def demo_font_def)
  moreover have "map_of (glyphs_of ''!?'') (of_char CHR '' '') = None"
    by (simp add: glyphs_of_def)
  ultimately show ?thesis
    by (simp add: demo_metrics)
qed

section \<open>The kerning checker in the loop\<close>

lemma after_widths_pass:
  "after_widths cm hm ws = Inr (True, reason) \<Longrightarrow> reason = []"
  by (auto simp: after_widths_def Let_def split: if_splits option.splits sum.splits prod.splits)

lemma check_font_metrics_pass:
  assumes "fst (check_font_metrics L p)"
  shows "check_font_metrics L p = (True, [])"
proof (cases "check_font_metrics_try L p")
  case (Inl e)
  with assms show ?thesis by (simp add: check_font_metrics_def)
next
  case (Inr result)
  with assms have r: "check_font_metrics L p = result" "fst result"
    by (simp_all add: check_font_metrics_def)
  obtain reason where res: "result = (True, reason)"
    using r(2) by (cases result) auto
  from Inr res have "reason = []"
    by (auto simp: check_font_metrics_try_def
          split: sum.splits option.splits if_splits
          dest: widths_loop_return_fails after_widths_pass)
  with r res show ?thesis by simp
qed

lemma probe_widths_bbox:
  assumes "textbbox font ''A B C D E'' = Inr (l1, t1, r1, b1)"
    and "textbbox font ''ABCDE'' = Inr (l2, t2, r2, b2)"
    and "textbbox font '' '' = Inr (l3, t3, r3, b3)"
  shows "probe_widths font = Inr (r1, r2, r3)"
  using assms by (simp add: probe_widths_def three_widths_def bbox_right_def)

lemma probe_widths_textsize:
  assumes "textbbox font ''A B C D E'' = Inl (TypeError m)"
    and "textsize font ''A B C D E'' = Inr (w1, h1)"
    and "textsize font ''ABCDE'' = Inr (w2, h2)"
    and "textsize font '' '' = Inr (w3, h3)"
  shows "probe_widths font = Inr (w1, w2, w3)"
  using assms
  by (simp add: probe_widths_def three_widths_def bbox_right_def textsize_width_def)

lemma quality_check_not_run:
  "\<not> (slow_check a \<and> fst (check_font_metrics L p)) \<Longrightarrow>
   quality_check L a p = check_font_metrics L p"
  by (auto simp: quality_check_def split: prod.splits)

lemma quality_check_run:
  assumes "slow_check a" "fst (check_font_metrics L p)"
  shows "quality_check L a p =
     (case slow_check_font L p (font_size a) of
        (True, reason) \<Rightarrow> (True, []) | (False, reason) \<Rightarrow> (False, reason))"
  using assms check_font_metrics_pass [OF assms(2)]
  by (auto simp: quality_check_def split: prod.splits bool.splits)

text \<open>
  C4 (as amended). The kerning checker has a say only when \<^verbatim>\<open>--slow-check\<close> is set and
  the metric checker passed; otherwise the result is that of the metric checker. When it
  runs and the three probes are measured, the font fails, with reason
  \<^verbatim>\<open>Potential kerning issue\<close>, exactly when the width of \<^verbatim>\<open>A B C D E\<close> minus the width of
  \<^verbatim>\<open>ABCDE\<close> is greater than four times the width of the lone space; the width is the right
  edge of \<^verbatim>\<open>textbbox\<close>, or the width of \<^verbatim>\<open>textsize\<close> after a \<^verbatim>\<open>TypeError\<close>. When loading
  the face or a measurement raises, the font fails as well, with reason
  \<^verbatim>\<open>Could not perform slow check:\<close> and the message.
\<close>

theorem kerning_gate:
  "(\<not> (slow_check a \<and> fst (check_font_metrics L p)) \<longrightarrow>
      quality_check L a p = check_font_metrics L p)
   \<and> (slow_check a \<and> fst (check_font_metrics L p)
        \<and> truetype L p (font_size a) = Inr font \<and> probe_widths font = Inr (w1, w2, w3) \<longrightarrow>
      quality_check L a p =
        (if w1 - w2 > 4 * w3 then (False, ''Potential kerning issue'') else (True, [])))
   \<and> (slow_check a \<and> fst (check_font_metrics L p)
        \<and> (truetype L p (font_size a) = Inl e
           \<or> truetype L p (font_size a) = Inr font \<and> probe_widths font = Inl e) \<longrightarrow>
      quality_check L a p = (False, ''Could not perform slow check: '' @ str_exn e))
   \<and> (textbbox font ''A B C D E'' = Inr (l1, t1, r1, b1)
        \<and> textbbox font ''ABCDE'' = Inr (l2, t2, r2, b2)
        \<and> textbbox font '' '' = Inr (l3, t3, r3, b3) \<longrightarrow>
      probe_widths font = Inr (r1, r2, r3))
   \<and> (textbbox font ''A B C D E'' = Inl (TypeError m)
        \<and> textsize font ''A B C D E'' = Inr (v1, h1)
        \<and> textsize font ''ABCDE'' = Inr (v2, h2)
        \<and> textsize font '' '' = Inr (v3, h3) \<longrightarrow>
      probe_widths font = Inr (v1, v2, v3))"
proof (intro conjI impI)
  assume "\<not> (slow_check a \<and> fst (check_font_metrics L p))"
  then show "quality_check L a p = check_font_metrics L p"
    by (rule quality_check_not_run)
next
  assume run: "slow_check a \<and> fst (check_font_metrics L p)
        \<and> truetype L p (font_size a) = Inr font \<and> probe_widths font = Inr (w1, w2, w3)"
  then have "slow_check_font L p (font_size a) =
      (if w1 - w2 > 4 * w3 then (False, ''Potential kerning issue'') else (True, []))"
    by (simp add: slow_check_font_def slow_check_font_try_def mult.commute)
  with run show "quality_check L a p =
      (if w1 - w2 > 4 * w3 then (False, ''Potential kerning issue'') else (True, []))"
    by (simp add: quality_check_run)
next
  assume run: "slow_check a \<and> fst (check_font_metrics L p)
        \<and> (truetype L p (font_size a) = Inl e
           \<or> truetype L p (font_size a) = Inr font \<and> probe_widths font = Inl e)"
  then have "slow_check_font L p (font_size a) =
      (False, ''Could not perform slow check: '' @ str_exn e)"
    by (auto simp: slow_check_font_def slow_check_font_try_def)
  with run show "quality_check L a p = (False, ''Could not perform slow check: '' @ str_exn e)"
    by (simp add: quality_check_run)
next
  assume "textbbox font ''A B C D E'' = Inr (l1, t1, r1, b1)
          \<and> textbbox font ''ABCDE'' = Inr (l2, t2, r2, b2)
          \<and> textbbox font '' '' = Inr (l3, t3, r3, b3)"
  then show "probe_widths font = Inr (r1, r2, r3)"
    by (simp add: probe_widths_bbox)
next
  assume "textbbox font ''A B C D E'' = Inl (TypeError m)
          \<and> textsize font ''A B C D E'' = Inr (v1, h1)
          \<and> textsize font ''ABCDE'' = Inr (v2, h2)
          \<and> textsize font '' '' = Inr (v3, h3)"
  then show "probe_widths font = Inr (v1, v2, v3)"
    by (simp add: probe_widths_textsize)
qed

theorem kerning_gate_witness:
  "slow_check slow_args
   \<and> fst (check_font_metrics demo_lib ''fonts/loose.ttf'')
   \<and> truetype demo_lib ''fonts/loose.ttf'' (font_size slow_args) = Inr (demo_face 14)
   \<and> textbbox (demo_face 14) ''A B C D E'' = Inr (1, 5, 117, 25)
   \<and> textbbox (demo_face 14) ''ABCDE'' = Inr (1, 5, 61, 25)
   \<and> textbbox (demo_face 14) '' '' = Inr (1, 5, 13, 25)
   \<and> quality_check demo_lib slow_args ''fonts/loose.ttf'' = (False, ''Potential kerning issue'')
   \<and> truetype demo_lib ''fonts/noface.ttf'' (font_size slow_args)
        = Inl (Exception ''cannot open resource'')
   \<and> quality_check demo_lib slow_args ''fonts/noface.ttf''
        = (False, ''Could not perform slow check: cannot open resource'')
   \<and> \<not> fst (check_font_metrics demo_lib ''fonts/zero.ttf'')
   \<and> quality_check demo_lib slow_args ''fonts/zero.ttf''
        = check_font_metrics demo_lib ''fonts/zero.ttf''
   \<and> fst (check_font_metrics demo_lib ''fonts/legacy.ttf'')
   \<and> truetype demo_lib ''fonts/legacy.ttf'' (font_size slow_args) = Inr legacy_face
   \<and> textbbox legacy_face ''A B C D E'' = Inl (TypeError ''unexpected keyword argument'')
   \<and> textsize legacy_face ''A B C D E'' = Inr (108, 20)
   \<and> textsize legacy_face ''ABCDE'' = Inr (60, 20)
   \<and> textsize legacy_face '' '' = Inr (12, 20)
   \<and> quality_check demo_lib slow_args ''fonts/legacy.ttf'' = (True, [])"
proof -
  have s: "slow_check slow_args"
    by (simp add: slow_args_def demo_args_def)
  have m: "fst (check_font_metrics demo_lib ''fonts/loose.ttf'')"
    and m': "fst (check_font_metrics demo_lib ''fonts/noface.ttf'')"
    and z: "\<not> fst (check_font_metrics demo_lib ''fonts/zero.ttf'')"
    by (simp_all add: demo_metrics)
  have t: "truetype demo_lib ''fonts/loose.ttf'' (font_size slow_args) = Inr (demo_face 14)"
    and t': "truetype demo_lib ''fonts/noface.ttf'' (font_size slow_args)
             = Inl (Exception ''cannot open resource'')"
    by (simp_all add: demo_lib_def)
  have b: "textbbox (demo_face 14) ''A B C D E'' = Inr (1, 5, 117, 25)"
      "textbbox (demo_face 14) ''ABCDE'' = Inr (1, 5, 61, 25)"
      "textbbox (demo_face 14) '' '' = Inr (1, 5, 13, 25)"
    by (simp_all add: demo_face_def)
  note g = kerning_gate [where a = slow_args and L = demo_lib and p = "''fonts/loose.ttf''"
      and font = "demo_face 14" and ?w1.0 = 117 and ?w2.0 = 61 and ?w3.0 = 13
      and ?l1.0 = 1 and ?t1.0 = 5 and ?r1.0 = 117 and ?b1.0 = 25
      and ?l2.0 = 1 and ?t2.0 = 5 and ?r2.0 = 61 and ?b2.0 = 25
      and ?l3.0 = 1 and ?t3.0 = 5 and ?r3.0 = 13 and ?b3.0 = 25]
  from g b have pw: "probe_widths (demo_face 14) = Inr (117, 61, 13)"
    by simp
  from g s m t pw have q1: "quality_check demo_lib slow_args ''fonts/loose.ttf''
      = (False, ''Potential kerning issue'')"
    by simp
  from kerning_gate [where a = slow_args and L = demo_lib and p = "''fonts/noface.ttf''"
      and e = "Exception ''cannot open resource''"] s m' t'
  have q2: "quality_check demo_lib slow_args ''fonts/noface.ttf''
      = (False, ''Could not perform slow check: cannot open resource'')"
    by simp
  from kerning_gate [where a = slow_args and L = demo_lib and p = "''fonts/zero.ttf''"] z
  have q3: "quality_check demo_lib slow_args ''fonts/zero.ttf''
      = check_font_metrics demo_lib ''fonts/zero.ttf''"
    by simp
  have ml: "fst (check_font_metrics demo_lib ''fonts/legacy.ttf'')"
    by (simp add: demo_metrics)
  have tl: "truetype demo_lib ''fonts/legacy.ttf'' (font_size slow_args) = Inr legacy_face"
    by (simp add: demo_lib_def)
  have bl: "textbbox legacy_face ''A B C D E'' = Inl (TypeError ''unexpected keyword argument'')"
      "textsize legacy_face ''A B C D E'' = Inr (108, 20)"
      "textsize legacy_face ''ABCDE'' = Inr (60, 20)"
      "textsize legacy_face '' '' = Inr (12, 20)"
    by (simp_all add: legacy_face_def)
  note gl = kerning_gate [where a = slow_args and L = demo_lib and p = "''fonts/legacy.ttf''"
      and font = legacy_face and ?w1.0 = 108 and ?w2.0 = 60 and ?w3.0 = 12
      and m = "''unexpected keyword argument''"
      and ?v1.0 = 108 and ?h1.0 = 20 and ?v2.0 = 60 and ?h2.0 = 20 and ?v3.0 = 12 and ?h3.0 = 20]
  from gl bl have pl: "probe_widths legacy_face = Inr (108, 60, 12)"
    by simp
  from gl s ml tl pl have q4: "quality_check demo_lib slow_args ''fonts/legacy.ttf'' = (True, [])"
    by simp
  from s m t b q1 t' q2 z q3 ml tl bl q4 show ?thesis by simp
qed

theorem kerning_gate_counterexample:
  "slow_check slow_args
   \<and> fst (check_font_metrics demo_lib ''fonts/noface.ttf'')
   \<and> truetype demo_lib ''fonts/noface.ttf'' (font_size slow_args)
        = Inl (Exception ''cannot open resource'')
   \<and> slow_check_font_try demo_lib ''fonts/noface.ttf'' (font_size slow_args)
        = Inl (Exception ''cannot open resource'')
   \<and> quality_check demo_lib slow_args ''fonts/noface.ttf''
        = (False, ''Could not perform slow check: cannot open resource'')"
proof -
  have s: "slow_check slow_args" and fs: "font_size slow_args = 24"
    by (simp_all add: slow_args_def demo_args_def)
  have m: "fst (check_font_metrics demo_lib ''fonts/noface.ttf'')"
    by (simp add: demo_metrics)
  have t: "truetype demo_lib ''fonts/noface.ttf'' (font_size slow_args)
        = Inl (Exception ''cannot open resource'')"
    by (simp add: demo_lib_def)
  then have y: "slow_check_font_try demo_lib ''fonts/noface.ttf'' (font_size slow_args)
        = Inl (Exception ''cannot open resource'')"
    by (simp add: slow_check_font_try_def)
  have q: "quality_check demo_lib slow_args ''fonts/noface.ttf''
        = (False, ''Could not perform slow check: cannot open resource'')"
    by (simp add: quality_check_def demo_metrics demo_slow_check s fs)
  from s m t y q show ?thesis by simp
qed

section \<open>The cap on the number of fonts\<close>

lemma slice_to_nonneg: "0 \<le> n \<Longrightarrow> slice_to xs n = take (nat n) xs"
  by (simp add: slice_to_def)

lemma font_iterator_capped:
  "number a = Some n \<Longrightarrow> 0 \<le> n \<Longrightarrow>
   font_iterator L a = sort (take (nat n) (find_fonts L (font_dir a)))"
  by (simp add: font_iterator_def slice_to_nonneg)

text \<open>
  C5 (as amended). With \<^verbatim>\<open>-n N\<close> and \<open>N \<ge> 0\<close>, the loop runs over the first \<open>N\<close> fonts of
  the discovery order, sorted afterwards: at most \<open>N\<close> fonts, and the same fonts as the
  first \<open>N\<close> found. They need not be the first \<open>N\<close> of the sorted list: of the fonts found
  in the small world, \<^verbatim>\<open>-n 1\<close> processes \<^verbatim>\<open>zero.ttf\<close>, the first found, and not
  \<^verbatim>\<open>broken.ttf\<close>, the first in sorted order.
\<close>

theorem number_cap_discovery_order:
  assumes "number a = Some n" and "0 \<le> n"
  shows "font_iterator L a = sort (take (nat n) (find_fonts L (font_dir a)))
       \<and> int (length (font_iterator L a)) \<le> n
       \<and> set (font_iterator L a) = set (take (nat n) (find_fonts L (font_dir a)))
       \<and> fst (main L a) = main_loop L a (sort (take (nat n) (find_fonts L (font_dir a)))) initial_state
       \<and> font_iterator demo_lib (demo_args\<lparr>number := Some 1\<rparr>) = [''fonts/zero.ttf'']
       \<and> take 1 (sort (find_fonts demo_lib ''fonts'')) = [''fonts/broken.ttf'']"
proof -
  from assms have it: "font_iterator L a = sort (take (nat n) (find_fonts L (font_dir a)))"
    by (rule font_iterator_capped)
  from assms(2) have "int (length (take (nat n) (find_fonts L (font_dir a)))) \<le> n"
    by simp
  with it have len: "int (length (font_iterator L a)) \<le> n"
    by simp
  from it have ms: "set (font_iterator L a) = set (take (nat n) (find_fonts L (font_dir a)))"
    by simp
  from it have mn: "fst (main L a)
      = main_loop L a (sort (take (nat n) (find_fonts L (font_dir a)))) initial_state"
    by (simp add: main_def Let_def)
  have d1: "font_iterator demo_lib (demo_args\<lparr>number := Some 1\<rparr>) = [''fonts/zero.ttf'']"
    by (simp add: font_iterator_def slice_to_def demo_args_def demo_found)
  have d2: "take 1 (sort (find_fonts demo_lib ''fonts'')) = [''fonts/broken.ttf'']"
    by (simp add: demo_found)
  from it len ms mn d1 d2 show ?thesis by blast
qed

theorem number_cap_discovery_order_witness:
  "number capped_args = Some 2
   \<and> find_fonts demo_lib (font_dir capped_args)
        = [''fonts/zero.ttf'', ''fonts/broken.ttf'', ''fonts/good.ttf'']
   \<and> font_iterator demo_lib capped_args = [''fonts/broken.ttf'', ''fonts/zero.ttf'']
   \<and> int (length (font_iterator demo_lib capped_args)) \<le> 2"
proof -
  have n: "number capped_args = Some 2" and d: "font_dir capped_args = ''fonts''"
    by (simp_all add: capped_args_def demo_args_def)
  have z: "(0::int) \<le> 2" by simp
  from number_cap_discovery_order [OF n z, of demo_lib] n d show ?thesis
    by (simp add: demo_found)
qed

theorem number_cap_counterexample:
  "number dropping_args = Some (- 1)
   \<and> find_fonts demo_lib (font_dir dropping_args)
        = [''fonts/zero.ttf'', ''fonts/broken.ttf'', ''fonts/good.ttf'']
   \<and> font_iterator demo_lib dropping_args = [''fonts/broken.ttf'', ''fonts/zero.ttf'']
   \<and> \<not> int (length (font_iterator demo_lib dropping_args)) \<le> - 1"
proof -
  have n: "number dropping_args = Some (- 1)" and d: "font_dir dropping_args = ''fonts''"
    by (simp_all add: dropping_args_def demo_args_def)
  then show ?thesis
    by (simp add: font_iterator_def slice_to_def demo_found)
qed

section \<open>The rasterizers\<close>

lemma draw_and_save_file:
  "draw_and_save L font txt image_path dims = Inr f \<Longrightarrow>
   f = \<lparr>file_path = image_path, file_format = ''PNG'',
        file_image = \<lparr>im_mode = ''RGBA'', im_size = dims, im_color = (255, 255, 255, 0),
                       im_drawn = [((10, 10), txt, ''black'')]\<rparr>\<rparr>"
  by (auto simp: draw_and_save_def Let_def split: option.splits)

lemma render_text_written:
  assumes "render_text L txt font_path image_path sz = (True, Some f)"
  shows "\<exists>font ascent descent text_width.
           truetype L font_path sz = Inr font \<and> getmetrics font = Inr (ascent, descent)
           \<and> text_width_of font txt = Inr text_width
           \<and> f = \<lparr>file_path = image_path, file_format = ''PNG'',
                  file_image = \<lparr>im_mode = ''RGBA'',
                     im_size = (text_width + 20, ascent + \<bar>descent\<bar> + 20),
                     im_color = (255, 255, 255, 0),
                     im_drawn = [((10, 10), txt, ''black'')]\<rparr>\<rparr>"
  using assms
  by (auto simp: render_text_def render_text_try_def Let_def
        split: sum.splits prod.splits dest!: draw_and_save_file)

lemma renderer_render_text_written:
  assumes "renderer_render_text L txt font_path image_path sz = (True, Some f)"
  shows "\<exists>font text_width text_height.
           truetype L font_path sz = Inr font
           \<and> text_extent_of font txt = Inr (text_width, text_height)
           \<and> f = \<lparr>file_path = image_path, file_format = ''PNG'',
                  file_image = \<lparr>im_mode = ''RGBA'',
                     im_size = (text_width + 20, text_height + 20),
                     im_color = (255, 255, 255, 0),
                     im_drawn = [((10, 10), txt, ''black'')]\<rparr>\<rparr>"
  using assms
  by (auto simp: renderer_render_text_def renderer_render_text_try_def Let_def
        split: sum.splits prod.splits dest!: draw_and_save_file)

text \<open>
  C6. The size of the image written depends on the text and on the face loaded for the
  font at that size, and on nothing else. Two runs may differ in everything but the face
  (the output path, what \<^verbatim>\<open>Image.new\<close>, \<^verbatim>\<open>draw.text\<close> and \<^verbatim>\<open>save\<close> do, the other
  fonts): when both write an image, the two images have the same width and the same
  height. This holds for the rasterizer of the indexer and for that of the renderer.
\<close>

theorem render_dimensions_deterministic:
  assumes "truetype L1 font_path sz = truetype L2 font_path sz"
  shows "(render_text L1 txt font_path path1 sz = (True, Some f1)
           \<and> render_text L2 txt font_path path2 sz = (True, Some f2)
          \<longrightarrow> im_size (file_image f1) = im_size (file_image f2))
       \<and> (renderer_render_text L1 txt font_path path1 sz = (True, Some g1)
           \<and> renderer_render_text L2 txt font_path path2 sz = (True, Some g2)
          \<longrightarrow> im_size (file_image g1) = im_size (file_image g2))"
proof (intro conjI impI)
  assume "render_text L1 txt font_path path1 sz = (True, Some f1)
           \<and> render_text L2 txt font_path path2 sz = (True, Some f2)"
  then have "render_text L1 txt font_path path1 sz = (True, Some f1)"
    and "render_text L2 txt font_path path2 sz = (True, Some f2)"
    by simp_all
  from render_text_written [OF this(1)] render_text_written [OF this(2)] assms
  show "im_size (file_image f1) = im_size (file_image f2)"
    by auto
next
  assume "renderer_render_text L1 txt font_path path1 sz = (True, Some g1)
           \<and> renderer_render_text L2 txt font_path path2 sz = (True, Some g2)"
  then have "renderer_render_text L1 txt font_path path1 sz = (True, Some g1)"
    and "renderer_render_text L2 txt font_path path2 sz = (True, Some g2)"
    by simp_all
  from renderer_render_text_written [OF this(1)] renderer_render_text_written [OF this(2)] assms
  show "im_size (file_image g1) = im_size (file_image g2)"
    by auto
qed

lemma demo_render:
  "render_text demo_lib ''Hi'' ''fonts/good.ttf'' image_path 24 =
     (True, Some (demo_png image_path ''Hi'' (44, 48)))"
  "image_path \<noteq> ''a.png'' \<Longrightarrow>
   render_text other_lib ''Hi'' ''fonts/good.ttf'' image_path 24 =
     (True, Some (demo_png image_path ''Hi'' (44, 48)))"
  "render_text other_lib ''Hi'' ''fonts/good.ttf'' ''a.png'' 24 = (False, None)"
  by (simp_all add: render_text_def render_text_try_def text_width_of_def draw_and_save_def
        demo_lib_def other_lib_def save_unless_a_def demo_face_def demo_png_def)

lemma demo_renderer_render:
  "renderer_render_text demo_lib ''Hi'' ''fonts/good.ttf'' image_path 24 =
     (True, Some (demo_png image_path ''Hi'' (44, 40)))"
  "image_path \<noteq> ''a.png'' \<Longrightarrow>
   renderer_render_text other_lib ''Hi'' ''fonts/good.ttf'' image_path 24 =
     (True, Some (demo_png image_path ''Hi'' (44, 40)))"
  by (simp_all add: renderer_render_text_def renderer_render_text_try_def text_extent_of_def
        draw_and_save_def demo_lib_def other_lib_def save_unless_a_def demo_face_def demo_png_def)

theorem render_dimensions_deterministic_witness:
  "truetype demo_lib ''fonts/good.ttf'' 24 = truetype other_lib ''fonts/good.ttf'' 24
   \<and> render_text demo_lib ''Hi'' ''fonts/good.ttf'' ''a.png'' 24
        = (True, Some (demo_png ''a.png'' ''Hi'' (44, 48)))
   \<and> render_text other_lib ''Hi'' ''fonts/good.ttf'' ''b.png'' 24
        = (True, Some (demo_png ''b.png'' ''Hi'' (44, 48)))
   \<and> im_size (file_image (demo_png ''a.png'' ''Hi'' (44, 48)))
        = im_size (file_image (demo_png ''b.png'' ''Hi'' (44, 48)))
   \<and> renderer_render_text demo_lib ''Hi'' ''fonts/good.ttf'' ''a.png'' 24
        = (True, Some (demo_png ''a.png'' ''Hi'' (44, 40)))
   \<and> renderer_render_text other_lib ''Hi'' ''fonts/good.ttf'' ''b.png'' 24
        = (True, Some (demo_png ''b.png'' ''Hi'' (44, 40)))
   \<and> im_size (file_image (demo_png ''a.png'' ''Hi'' (44, 40)))
        = im_size (file_image (demo_png ''b.png'' ''Hi'' (44, 40)))"
proof -
  have t: "truetype demo_lib ''fonts/good.ttf'' 24 = truetype other_lib ''fonts/good.ttf'' 24"
    by (simp add: other_lib_def)
  have r1: "render_text demo_lib ''Hi'' ''fonts/good.ttf'' ''a.png'' 24
        = (True, Some (demo_png ''a.png'' ''Hi'' (44, 48)))"
    by (rule demo_render(1))
  have r2: "render_text other_lib ''Hi'' ''fonts/good.ttf'' ''b.png'' 24
        = (True, Some (demo_png ''b.png'' ''Hi'' (44, 48)))"
    by (simp add: demo_render)
  have g1: "renderer_render_text demo_lib ''Hi'' ''fonts/good.ttf'' ''a.png'' 24
        = (True, Some (demo_png ''a.png'' ''Hi'' (44, 40)))"
    by (rule demo_renderer_render)
  have g2: "renderer_render_text other_lib ''Hi'' ''fonts/good.ttf'' ''b.png'' 24
        = (True, Some (demo_png ''b.png'' ''Hi'' (44, 40)))"
    by (simp add: demo_renderer_render)
  note d = render_dimensions_deterministic [OF t, of "''Hi''"
      "''a.png''" "demo_png ''a.png'' ''Hi'' (44, 48)"
      "''b.png''" "demo_png ''b.png'' ''Hi'' (44, 48)"
      "demo_png ''a.png'' ''Hi'' (44, 40)" "demo_png ''b.png'' ''Hi'' (44, 40)"]
  from d r1 r2 have e1: "im_size (file_image (demo_png ''a.png'' ''Hi'' (44, 48)))
        = im_size (file_image (demo_png ''b.png'' ''Hi'' (44, 48)))"
    by blast
  from d g1 g2 have e2: "im_size (file_image (demo_png ''a.png'' ''Hi'' (44, 40)))
        = im_size (file_image (demo_png ''b.png'' ''Hi'' (44, 40)))"
    by blast
  from t r1 r2 e1 g1 g2 e2 show ?thesis by blast
qed

text \<open>
  C7 (as amended). When \<^verbatim>\<open>textbbox\<close> gives the box of the text, both rasterizers write a
  PNG file holding an RGBA image with background \<open>(255, 255, 255, 0)\<close> and the text drawn
  in black at \<open>(10, 10)\<close>, whose width is the width of the box plus twice the padding of
  10. The height is the height of the box plus twice the padding in the renderer; in the
  indexer it is the ascent of the font plus the absolute value of its descent plus twice
  the padding, whatever the box of the text.
\<close>

theorem canvas_from_bbox:
  assumes "truetype L font_path sz = Inr font"
    and "textbbox font txt = Inr (l, t, r, b)"
  shows "(renderer_render_text L txt font_path image_path sz = (True, Some f) \<longrightarrow>
            f = \<lparr>file_path = image_path, file_format = ''PNG'',
                  file_image = \<lparr>im_mode = ''RGBA'',
                     im_size = (r - l + 2 * 10, b - t + 2 * 10),
                     im_color = (255, 255, 255, 0),
                     im_drawn = [((10, 10), txt, ''black'')]\<rparr>\<rparr>)
       \<and> (getmetrics font = Inr (ascent, descent)
            \<and> render_text L txt font_path image_path sz = (True, Some f') \<longrightarrow>
            f' = \<lparr>file_path = image_path, file_format = ''PNG'',
                   file_image = \<lparr>im_mode = ''RGBA'',
                      im_size = (r - l + 2 * 10, ascent + \<bar>descent\<bar> + 2 * 10),
                      im_color = (255, 255, 255, 0),
                      im_drawn = [((10, 10), txt, ''black'')]\<rparr>\<rparr>)"
proof (intro conjI impI)
  assume "renderer_render_text L txt font_path image_path sz = (True, Some f)"
  from renderer_render_text_written [OF this] assms
  show "f = \<lparr>file_path = image_path, file_format = ''PNG'',
                  file_image = \<lparr>im_mode = ''RGBA'',
                     im_size = (r - l + 2 * 10, b - t + 2 * 10),
                     im_color = (255, 255, 255, 0),
                     im_drawn = [((10, 10), txt, ''black'')]\<rparr>\<rparr>"
    by (auto simp: text_extent_of_def)
next
  assume a: "getmetrics font = Inr (ascent, descent)
            \<and> render_text L txt font_path image_path sz = (True, Some f')"
  then have "render_text L txt font_path image_path sz = (True, Some f')"
    by simp
  from render_text_written [OF this] assms a
  show "f' = \<lparr>file_path = image_path, file_format = ''PNG'',
                   file_image = \<lparr>im_mode = ''RGBA'',
                      im_size = (r - l + 2 * 10, ascent + \<bar>descent\<bar> + 2 * 10),
                      im_color = (255, 255, 255, 0),
                      im_drawn = [((10, 10), txt, ''black'')]\<rparr>\<rparr>"
    by (auto simp: text_width_of_def)
qed

theorem canvas_from_bbox_witness:
  "truetype demo_lib ''fonts/good.ttf'' 24 = Inr (demo_face 12)
   \<and> textbbox (demo_face 12) ''Hi'' = Inr (1, 5, 25, 25)
   \<and> getmetrics (demo_face 12) = Inr (22, - 6)
   \<and> renderer_render_text demo_lib ''Hi'' ''fonts/good.ttf'' ''output.png'' 24
        = (True, Some (demo_png ''output.png'' ''Hi'' (44, 40)))
   \<and> render_text demo_lib ''Hi'' ''fonts/good.ttf'' ''renders/good.ttf.png'' 24
        = (True, Some (demo_png ''renders/good.ttf.png'' ''Hi'' (44, 48)))
   \<and> demo_png ''output.png'' ''Hi'' (44, 40)
        = \<lparr>file_path = ''output.png'', file_format = ''PNG'',
            file_image = \<lparr>im_mode = ''RGBA'', im_size = (25 - 1 + 2 * 10, 25 - 5 + 2 * 10),
               im_color = (255, 255, 255, 0), im_drawn = [((10, 10), ''Hi'', ''black'')]\<rparr>\<rparr>
   \<and> demo_png ''renders/good.ttf.png'' ''Hi'' (44, 48)
        = \<lparr>file_path = ''renders/good.ttf.png'', file_format = ''PNG'',
            file_image = \<lparr>im_mode = ''RGBA'', im_size = (25 - 1 + 2 * 10, 22 + \<bar>- 6\<bar> + 2 * 10),
               im_color = (255, 255, 255, 0), im_drawn = [((10, 10), ''Hi'', ''black'')]\<rparr>\<rparr>"
proof -
  have t: "truetype demo_lib ''fonts/good.ttf'' 24 = Inr (demo_face 12)"
    by (simp add: demo_lib_def)
  have b: "textbbox (demo_face 12) ''Hi'' = Inr (1, 5, 25, 25)"
    and m: "getmetrics (demo_face 12) = Inr (22, - 6)"
    by (simp_all add: demo_face_def)
  have r1: "renderer_render_text demo_lib ''Hi'' ''fonts/good.ttf'' ''output.png'' 24
        = (True, Some (demo_png ''output.png'' ''Hi'' (44, 40)))"
    by (rule demo_renderer_render(1))
  have r2: "render_text demo_lib ''Hi'' ''fonts/good.ttf'' ''renders/good.ttf.png'' 24
        = (True, Some (demo_png ''renders/good.ttf.png'' ''Hi'' (44, 48)))"
    by (rule demo_render(1))
  note c = canvas_from_bbox [OF t b, where image_path = "''output.png''"
      and f = "demo_png ''output.png'' ''Hi'' (44, 40)"]
  note c' = canvas_from_bbox [OF t b, where image_path = "''renders/good.ttf.png''"
      and f' = "demo_png ''renders/good.ttf.png'' ''Hi'' (44, 48)"
      and ascent = 22 and descent = "- 6"]
  from c r1 have e1: "demo_png ''output.png'' ''Hi'' (44, 40)
        = \<lparr>file_path = ''output.png'', file_format = ''PNG'',
            file_image = \<lparr>im_mode = ''RGBA'', im_size = (25 - 1 + 2 * 10, 25 - 5 + 2 * 10),
               im_color = (255, 255, 255, 0), im_drawn = [((10, 10), ''Hi'', ''black'')]\<rparr>\<rparr>"
    by blast
  from c' r2 m have e2: "demo_png ''renders/good.ttf.png'' ''Hi'' (44, 48)
        = \<lparr>file_path = ''renders/good.ttf.png'', file_format = ''PNG'',
            file_image = \<lparr>im_mode = ''RGBA'', im_size = (25 - 1 + 2 * 10, 22 + \<bar>- 6\<bar> + 2 * 10),
               im_color = (255, 255, 255, 0), im_drawn = [((10, 10), ''Hi'', ''black'')]\<rparr>\<rparr>"
    by blast
  from t b m r1 r2 e1 e2 show ?thesis by blast
qed

theorem canvas_from_bbox_counterexample:
  "truetype demo_lib ''fonts/good.ttf'' 24 = Inr (demo_face 12)
   \<and> textbbox (demo_face 12) ''Hi'' = Inr (1, 5, 25, 25)
   \<and> render_text demo_lib ''Hi'' ''fonts/good.ttf'' ''renders/good.ttf.png'' 24
        = (True, Some (demo_png ''renders/good.ttf.png'' ''Hi'' (44, 48)))
   \<and> snd (im_size (file_image (demo_png ''renders/good.ttf.png'' ''Hi'' (44, 48)))) = 48
   \<and> snd (im_size (file_image (demo_png ''renders/good.ttf.png'' ''Hi'' (44, 48))))
        \<noteq> 25 - 5 + 2 * 10"
proof -
  have "truetype demo_lib ''fonts/good.ttf'' 24 = Inr (demo_face 12)"
    by (simp add: demo_lib_def)
  moreover have "textbbox (demo_face 12) ''Hi'' = Inr (1, 5, 25, 25)"
    by (simp add: demo_face_def)
  moreover have "render_text demo_lib ''Hi'' ''fonts/good.ttf'' ''renders/good.ttf.png'' 24
        = (True, Some (demo_png ''renders/good.ttf.png'' ''Hi'' (44, 48)))"
    by (rule demo_render(1))
  moreover have "snd (im_size (file_image (demo_png ''renders/good.ttf.png'' ''Hi'' (44, 48)))) = 48"
    by (simp add: demo_png_def)
  ultimately show ?thesis by simp
qed

section \<open>Rows and counters\<close>

lemma demo_paths:
  "basename demo_lib ''fonts/good.ttf'' = ''good.ttf''"
  "basename demo_lib ''fonts/zero.ttf'' = ''zero.ttf''"
  "relpath demo_lib p = p"
  "path_join demo_lib d f = d @ ''/'' @ f"
  by (simp_all add: demo_lib_def)

lemma demo_args_fields:
  "text_arg demo_args = ''Hi''" "output_dir demo_args = ''renders''"
  "font_size demo_args = 24" "\<not> slow_check demo_args" "font_dir demo_args = ''fonts''"
  "number demo_args = None" "html_file demo_args = ''index.html''"
  by (simp_all add: demo_args_def)

lemma demo_quality:
  "quality_check demo_lib demo_args ''fonts/good.ttf'' = (True, [])"
  \<open>quality_check demo_lib demo_args ''fonts/zero.ttf'' = (False, ''Character \'B\' has zero width'')\<close>
  by (simp_all add: quality_check_def demo_metrics demo_args_fields)

lemma demo_render_zero:
  "render_text demo_lib ''Hi'' ''fonts/zero.ttf'' image_path 24 =
     (True, Some (demo_png image_path ''Hi'' (44, 48)))"
  by (simp add: render_text_def render_text_try_def text_width_of_def draw_and_save_def
        demo_lib_def demo_face_def demo_png_def)

lemma process_font_listed:
  assumes "has_required_chars L p" and "get_font_info L p = Some info"
    and "quality_check L a p = (ok, reason)"
    and "render_text L (text_arg a) p (path_join L (output_dir a) (basename L p @ ''.png''))
           (font_size a) = (True, written)"
  shows \<open>process_font L a st p =
     st\<lparr>total_processed_fonts := total_processed_fonts st + 1,
        fonts_with_issues := (if ok then fonts_with_issues st else fonts_with_issues st + 1),
        table_rows := table_rows st @
          row_of info (basename L p) (if ok then [] else ''title="'' @ reason @ ''"'')
            (if ok then ''&#9989;'' else ''&#10060;'')
            (path_join L (output_dir a) (basename L p @ ''.png'')) (relpath L p),
        renders := renders st @ (case written of None \<Rightarrow> [] | Some f \<Rightarrow> [f])\<rparr>\<close>
  using assms by (simp add: process_font_def Let_def)

text \<open>
  C8. A font that passed the coverage check and whose names were read, and that fails
  the quality check (the metric checker fails, or \<^verbatim>\<open>--slow-check\<close> is set, the metric
  checker passed and the kerning checker fails), still gets its row when its thumbnail
  was rendered: both counters go up by one, and the eight strings of the row are
  appended, the fifth being the cell with the reason as \<^verbatim>\<open>title\<close> and the failing icon.
\<close>

theorem quality_failure_still_listed:
  assumes "has_required_chars L p" and "get_font_info L p = Some info"
    and "check_font_metrics L p = (False, reason)
         \<or> slow_check a \<and> fst (check_font_metrics L p)
            \<and> slow_check_font L p (font_size a) = (False, reason)"
    and "render_text L (text_arg a) p (path_join L (output_dir a) (basename L p @ ''.png''))
           (font_size a) = (True, written)"
  shows \<open>total_processed_fonts (process_font L a st p) = total_processed_fonts st + 1
       \<and> fonts_with_issues (process_font L a st p) = fonts_with_issues st + 1
       \<and> table_rows (process_font L a st p) =
           table_rows st @
             [''<tr>'',
              ''<td class="font-name-col">'' @ full_name info @ ''</td>'',
              ''<td class="filename-col">'' @ basename L p @ ''</td>'',
              ''<td>'' @ style info @ ''</td>'',
              ''<td title="'' @ reason @ ''">&#10060;</td>'',
              ''<td class="render-col"><img src="''
                 @ path_join L (output_dir a) (basename L p @ ''.png'')
                 @ ''" alt="Render of '' @ full_name info @ ''"></td>'',
              ''<td><a href="'' @ relpath L p @ ''"><i class=\'bx bx-download\'></i></a></td>'',
              ''</tr>'']\<close>
proof -
  from assms(3) have q: "quality_check L a p = (False, reason)"
    by (auto simp: quality_check_def split: prod.splits)
  from process_font_listed [OF assms(1,2) q assms(4), of st] show ?thesis
    by (simp add: row_of_def)
qed

theorem quality_failure_still_listed_witness:
  \<open>has_required_chars demo_lib ''fonts/zero.ttf''
   \<and> get_font_info demo_lib ''fonts/zero.ttf'' = Some demo_info
   \<and> check_font_metrics demo_lib ''fonts/zero.ttf'' = (False, ''Character \'B\' has zero width'')
   \<and> render_text demo_lib (text_arg demo_args) ''fonts/zero.ttf''
         (path_join demo_lib (output_dir demo_args) (basename demo_lib ''fonts/zero.ttf'' @ ''.png''))
         (font_size demo_args)
        = (True, Some (demo_png ''renders/zero.ttf.png'' ''Hi'' (44, 48)))
   \<and> total_processed_fonts (process_font demo_lib demo_args initial_state ''fonts/zero.ttf'') = 1
   \<and> fonts_with_issues (process_font demo_lib demo_args initial_state ''fonts/zero.ttf'') = 1
   \<and> table_rows (process_font demo_lib demo_args initial_state ''fonts/zero.ttf'') =
        [''<tr>'',
         ''<td class="font-name-col">Demo Regular</td>'',
         ''<td class="filename-col">zero.ttf</td>'',
         ''<td>Regular</td>'',
         ''<td title="Character \'B\' has zero width">&#10060;</td>'',
         ''<td class="render-col"><img src="renders/zero.ttf.png" alt="Render of Demo Regular"></td>'',
         ''<td><a href="fonts/zero.ttf"><i class=\'bx bx-download\'></i></a></td>'',
         ''</tr>'']\<close>
proof -
  have c: "has_required_chars demo_lib ''fonts/zero.ttf''"
    by (rule demo_coverage)
  have i: "get_font_info demo_lib ''fonts/zero.ttf'' = Some demo_info"
    by (simp add: demo_info demo_info_def)
  have m: \<open>check_font_metrics demo_lib ''fonts/zero.ttf'' = (False, ''Character \'B\' has zero width'')\<close>
    by (simp add: demo_metrics)
  then have m': \<open>check_font_metrics demo_lib ''fonts/zero.ttf'' = (False, ''Character \'B\' has zero width'')
         \<or> slow_check demo_args \<and> fst (check_font_metrics demo_lib ''fonts/zero.ttf'')
            \<and> slow_check_font demo_lib ''fonts/zero.ttf'' (font_size demo_args)
                = (False, ''Character \'B\' has zero width'')\<close>
    by (rule disjI1)
  have r: "render_text demo_lib (text_arg demo_args) ''fonts/zero.ttf''
         (path_join demo_lib (output_dir demo_args) (basename demo_lib ''fonts/zero.ttf'' @ ''.png''))
         (font_size demo_args)
        = (True, Some (demo_png ''renders/zero.ttf.png'' ''Hi'' (44, 48)))"
    by (simp add: demo_args_fields demo_paths demo_render_zero)
  from quality_failure_still_listed [OF c i m' r, of initial_state] c i m r show ?thesis
    by (simp add: initial_state_def demo_info_def demo_paths demo_args_fields)
qed

section \<open>Whole runs\<close>

lemma demo_iterator:
  "font_iterator demo_lib demo_args = [''fonts/broken.ttf'', ''fonts/good.ttf'', ''fonts/zero.ttf'']"
  by (simp add: font_iterator_def demo_args_fields demo_found)

lemma demo_render_args:
  "render_text demo_lib (text_arg demo_args) ''fonts/good.ttf''
     (path_join demo_lib (output_dir demo_args) (basename demo_lib ''fonts/good.ttf'' @ ''.png''))
     (font_size demo_args)
   = (True, Some (demo_png ''renders/good.ttf.png'' ''Hi'' (44, 48)))"
  "render_text demo_lib (text_arg demo_args) ''fonts/zero.ttf''
     (path_join demo_lib (output_dir demo_args) (basename demo_lib ''fonts/zero.ttf'' @ ''.png''))
     (font_size demo_args)
   = (True, Some (demo_png ''renders/zero.ttf.png'' ''Hi'' (44, 48)))"
  by (simp_all add: demo_args_fields demo_paths demo_render demo_render_zero)

lemma demo_counters:
  "total_processed_fonts (process_font demo_lib demo_args st ''fonts/good.ttf'')
     = total_processed_fonts st + 1"
  "fonts_with_issues (process_font demo_lib demo_args st ''fonts/good.ttf'')
     = fonts_with_issues st"
  "total_processed_fonts (process_font demo_lib demo_args st ''fonts/zero.ttf'')
     = total_processed_fonts st + 1"
  "fonts_with_issues (process_font demo_lib demo_args st ''fonts/zero.ttf'')
     = fonts_with_issues st + 1"
  using process_font_listed [OF demo_coverage(1) demo_info demo_quality(1) demo_render_args(1), of st]
    process_font_listed [OF demo_coverage(2) demo_info demo_quality(2) demo_render_args(2), of st]
  by simp_all



lemma process_font_cases:
  \<open>process_font L a st p = st
   \<or> (\<exists>info ok reason written.
         has_required_chars L p \<and> get_font_info L p = Some info
         \<and> quality_check L a p = (ok, reason)
         \<and> render_text L (text_arg a) p (path_join L (output_dir a) (basename L p @ ''.png''))
              (font_size a) = (True, written)
         \<and> process_font L a st p =
             st\<lparr>total_processed_fonts := total_processed_fonts st + 1,
                fonts_with_issues := (if ok then fonts_with_issues st else fonts_with_issues st + 1),
                table_rows := table_rows st @
                  row_of info (basename L p) (if ok then [] else ''title="'' @ reason @ ''"'')
                    (if ok then ''&#9989;'' else ''&#10060;'')
                    (path_join L (output_dir a) (basename L p @ ''.png'')) (relpath L p),
                renders := renders st @ (case written of None \<Rightarrow> [] | Some f \<Rightarrow> [f])\<rparr>)\<close>
proof (cases "has_required_chars L p")
  case False
  then show ?thesis by (simp add: process_font_skip)
next
  case cov: True
  show ?thesis
  proof (cases "get_font_info L p")
    case None
    with cov show ?thesis by (simp add: process_font_def)
  next
    case (Some info)
    obtain ok reason where q: "quality_check L a p = (ok, reason)"
      by (cases "quality_check L a p")
    obtain rendered written where r:
      "render_text L (text_arg a) p (path_join L (output_dir a) (basename L p @ ''.png''))
         (font_size a) = (rendered, written)"
      by (cases "render_text L (text_arg a) p
            (path_join L (output_dir a) (basename L p @ ''.png'')) (font_size a)")
    show ?thesis
    proof (cases rendered)
      case True
      with cov Some q r process_font_listed [of L p info a ok reason written st]
      show ?thesis by simp
    next
      case False
      with cov Some q r show ?thesis
        by (simp add: process_font_def Let_def)
    qed
  qed
qed

lemma row_of_count:
  "length (row_of info base title_attr quality_icon image_path relative_font_path) = 8"
  "length (filter (\<lambda>s. s = ''<tr>'')
     (row_of info base title_attr quality_icon image_path relative_font_path)) = 1"
  by (simp_all add: row_of_def)

lemma loop_invariant_step:
  assumes "loop_invariant st"
  shows "loop_invariant (process_font L a st p)"
  using process_font_cases [of L a st p] assms
  by (auto simp: loop_invariant_def row_of_count split: option.splits)

lemma loop_invariant_run:
  "loop_invariant st \<Longrightarrow> loop_invariant (main_loop L a fonts st)"
  by (induction fonts arbitrary: st) (simp_all add: main_loop_Nil main_loop_Cons loop_invariant_step)

lemma html_counts_position:
  "html_document L a st ! 14
     = ''<p>Total fonts processed: '' @ str_int (total_processed_fonts st) @ ''</p>''"
  "html_document L a st ! 15
     = ''<p>Fonts with quality issues (&#10060;): '' @ str_int (fonts_with_issues st) @ ''</p>''"
  by (simp_all add: html_document_def html_head_def html_counts_def nth_append)

lemma process_font_counts:
  assumes "total_processed_fonts (process_font L a st p) \<noteq> total_processed_fonts st
         \<or> fonts_with_issues (process_font L a st p) \<noteq> fonts_with_issues st"
  shows "fst (render_text L (text_arg a) p
               (path_join L (output_dir a) (basename L p @ ''.png'')) (font_size a))
       \<and> total_processed_fonts (process_font L a st p) = total_processed_fonts st + 1"
  using process_font_cases [of L a st p] assms by auto

text \<open>
  C10. After any list of fonts, starting from the two counters at 0 and no row, the
  fonts with issues are at most the fonts processed, \<^verbatim>\<open>table_rows\<close> holds eight strings
  for each font processed, one of them \<^verbatim>\<open><tr>\<close>, so that the rows are as many as the fonts
  processed. An iteration that changes a counter is one whose thumbnail was rendered, and
  it adds one to the fonts processed. The file written is the concatenation of the writes
  built from the final state; its fifteenth and sixteenth writes carry the two counters.
\<close>

theorem counters_invariant:
  "(let st = main_loop L a fonts initial_state in
      0 \<le> fonts_with_issues st \<and> fonts_with_issues st \<le> total_processed_fonts st
      \<and> int (length (table_rows st)) = 8 * total_processed_fonts st
      \<and> int (length (filter (\<lambda>s. s = ''<tr>'') (table_rows st))) = total_processed_fonts st)
   \<and> (total_processed_fonts (process_font L a st' p) \<noteq> total_processed_fonts st'
        \<or> fonts_with_issues (process_font L a st' p) \<noteq> fonts_with_issues st'
       \<longrightarrow> fst (render_text L (text_arg a) p
                  (path_join L (output_dir a) (basename L p @ ''.png'')) (font_size a))
           \<and> total_processed_fonts (process_font L a st' p) = total_processed_fonts st' + 1)
   \<and> snd (snd (main L a)) = concat (html_document L a (fst (main L a)))
   \<and> html_document L a (fst (main L a)) ! 14
        = ''<p>Total fonts processed: ''
            @ str_int (total_processed_fonts (fst (main L a))) @ ''</p>''
   \<and> html_document L a (fst (main L a)) ! 15
        = ''<p>Fonts with quality issues (&#10060;): ''
            @ str_int (fonts_with_issues (fst (main L a))) @ ''</p>''"
proof -
  have "loop_invariant initial_state"
    by (simp add: loop_invariant_def initial_state_def)
  then have "loop_invariant (main_loop L a fonts initial_state)"
    by (rule loop_invariant_run)
  then have inv: "let st = main_loop L a fonts initial_state in
      0 \<le> fonts_with_issues st \<and> fonts_with_issues st \<le> total_processed_fonts st
      \<and> int (length (table_rows st)) = 8 * total_processed_fonts st
      \<and> int (length (filter (\<lambda>s. s = ''<tr>'') (table_rows st))) = total_processed_fonts st"
    by (simp add: loop_invariant_def Let_def)
  have html: "snd (snd (main L a)) = concat (html_document L a (fst (main L a)))"
    by (simp add: main_def Let_def)
  from inv process_font_counts [of L a st' p] html
    html_counts_position [of L a "fst (main L a)"]
  show ?thesis by blast
qed

theorem counters_invariant_witness:
  "total_processed_fonts (process_font demo_lib demo_args initial_state ''fonts/good.ttf'')
     \<noteq> total_processed_fonts initial_state
   \<and> fst (render_text demo_lib (text_arg demo_args) ''fonts/good.ttf''
        (path_join demo_lib (output_dir demo_args) (basename demo_lib ''fonts/good.ttf'' @ ''.png''))
        (font_size demo_args))
   \<and> total_processed_fonts (fst (main demo_lib demo_args)) = 2
   \<and> fonts_with_issues (fst (main demo_lib demo_args)) = 1
   \<and> length (table_rows (fst (main demo_lib demo_args))) = 16
   \<and> html_document demo_lib demo_args (fst (main demo_lib demo_args)) ! 14
        = ''<p>Total fonts processed: 2</p>''
   \<and> html_document demo_lib demo_args (fst (main demo_lib demo_args)) ! 15
        = ''<p>Fonts with quality issues (&#10060;): 1</p>''"
proof -
  have m: "fst (main demo_lib demo_args) = main_loop demo_lib demo_args
      [''fonts/broken.ttf'', ''fonts/good.ttf'', ''fonts/zero.ttf''] initial_state"
    by (simp add: main_def Let_def demo_iterator)
  have b: "process_font demo_lib demo_args initial_state ''fonts/broken.ttf'' = initial_state"
    by (simp add: process_font_skip demo_coverage)
  from m b have c: "total_processed_fonts (fst (main demo_lib demo_args)) = 2"
    "fonts_with_issues (fst (main demo_lib demo_args)) = 1"
    by (simp_all add: main_loop_Cons main_loop_Nil demo_counters initial_state_def)
  have h: "total_processed_fonts (process_font demo_lib demo_args initial_state ''fonts/good.ttf'')
     \<noteq> total_processed_fonts initial_state"
    by (simp add: demo_counters)
  note k = counters_invariant [of demo_lib demo_args
      "[''fonts/broken.ttf'', ''fonts/good.ttf'', ''fonts/zero.ttf'']"
      initial_state "''fonts/good.ttf''"]
  from k h have r: "fst (render_text demo_lib (text_arg demo_args) ''fonts/good.ttf''
        (path_join demo_lib (output_dir demo_args) (basename demo_lib ''fonts/good.ttf'' @ ''.png''))
        (font_size demo_args))"
    by blast
  from k m c have l: "int (length (table_rows (fst (main demo_lib demo_args)))) = 8 * 2"
    by (simp add: Let_def)
  from k c have w: "html_document demo_lib demo_args (fst (main demo_lib demo_args)) ! 14
        = ''<p>Total fonts processed: '' @ str_int 2 @ ''</p>''"
    "html_document demo_lib demo_args (fst (main demo_lib demo_args)) ! 15
        = ''<p>Fonts with quality issues (&#10060;): '' @ str_int 1 @ ''</p>''"
    by simp_all
  from h r c l w show ?thesis
    by (simp add: str_int_def)
qed

end
